theory Spec2Isabelle
  imports Main "HOL-Library.Word"
begin

section \<open>Values shared by the adapters\<close>

text \<open>
  A fetched resource is a \<^verbatim>\<open>Uint8Array\<close>: a list of bytes.
\<close>

type_synonym bytes = "8 word list"

text \<open>
  What a JavaScript function throws. \<^verbatim>\<open>new Error(message)\<close> is \<open>JsError\<close>;
  \<^verbatim>\<open>new FS.ErrnoError(errno)\<close> is \<open>ErrnoError\<close> with the error number and the
  text the adapter assigns to its \<^verbatim>\<open>message\<close> afterwards (empty when it assigns
  none); a typed array written out of bounds throws a \<open>RangeError\<close>. The adapters are
  built on the Emscripten filesystem of the interpreter, which defines
  \<^verbatim>\<open>FS.ErrnoError\<close>, so \<^verbatim>\<open>FS.ErrnoError || Error\<close> is \<^verbatim>\<open>FS.ErrnoError\<close>.
\<close>

datatype thrown = JsError string | ErrnoError nat string | RangeError

text \<open>The error numbers the source writes: 44, 30 and 22 (its comments name them).\<close>

definition ENOENT :: nat where "ENOENT = 44"
definition EINVAL :: nat where "EINVAL = 22"

text \<open>
  The value handed to the fetch bridge as locator. The adapters build strings; the lookup
  of a name in an object literal can also return what the literal inherits from
  \<^verbatim>\<open>Object.prototype\<close>: a function, or the prototype object itself.
\<close>

datatype jsval = JStr string | JFun string | JProto

fun truthy :: "jsval \<Rightarrow> bool" where
  "truthy (JStr s) = (s \<noteq> [])"
| "truthy (JFun f) = True"
| "truthy JProto = True"

text \<open>\<^verbatim>\<open>`${url}`\<close>: the text of a value inside a template literal.\<close>

fun to_text :: "jsval \<Rightarrow> string" where
  "to_text (JStr s) = s"
| "to_text (JFun f) = ''function '' @ f @ ''() { [native code] }''"
| "to_text JProto = ''[object Object]''"

text \<open>
  \<^verbatim>\<open>worker.postMessage\<close> copies its message by structured clone, which refuses a
  function with a \<^verbatim>\<open>DataCloneError\<close>.
\<close>

fun cloneable :: "jsval \<Rightarrow> bool" where
  "cloneable (JStr s) = True"
| "cloneable (JFun f) = False"
| "cloneable JProto = True"

section \<open>Blocking fetch bridge (\<^verbatim>\<open>SyncFetchWorker\<close>)\<close>

text \<open>
  The message the background worker deposits on the port for a job:
  \<^verbatim>\<open>{status: "ok", data}\<close>, \<^verbatim>\<open>{status: "error", error: {message}}\<close>, or nothing.
  The worker and the network behind it are the environment: a function from the job id and
  the locator to the payload the worker posts for that job.
\<close>

datatype payload = PayloadOk bytes | PayloadError string | NoPayload

type_synonym worker = "nat \<Rightarrow> jsval \<Rightarrow> payload"

text \<open>
  The state of the bridge: the next job id, and the requests posted to the worker so far
  (job id and locator, oldest first).
\<close>

record SyncFetchWorker =
  nextJobId :: nat
  posted :: "(nat \<times> jsval) list"

text \<open>
  \<^verbatim>\<open>fetch(url)\<close>: takes the next job id, posts the request, blocks until the worker has
  answered, and returns the bytes or throws.
\<close>

definition fetch :: "worker \<Rightarrow> jsval \<Rightarrow> SyncFetchWorker \<Rightarrow> (thrown + bytes) \<times> SyncFetchWorker" where
  "fetch w url f =
     (let jobId = nextJobId f;
          f1 = f\<lparr>nextJobId := jobId + 1\<rparr>
      in if \<not> cloneable url
         then (Inl (JsError (to_text url @ '' could not be cloned.'')), f1)
         else
           (let f2 = f1\<lparr>posted := posted f1 @ [(jobId, url)]\<rparr>
            in case w jobId url of
                 NoPayload \<Rightarrow>
                   (Inl (JsError (''Fetch worker returned no payload for '' @ to_text url)), f2)
               | PayloadError msg \<Rightarrow>
                   (Inl (JsError (if msg = [] then ''Failed to fetch '' @ to_text url else msg)), f2)
               | PayloadOk data \<Rightarrow> (Inr data, f2)))"

section \<open>Virtual-node adapter (\<^verbatim>\<open>NetworkFileSystem\<close> with node and stream operations)\<close>

record NetworkFileSystem =
  scheme :: string
  mountPoint :: string
  cache :: "string \<rightharpoonup> bytes"
  fetcher :: SyncFetchWorker

text \<open>
  A node of the mounted tree as \<^verbatim>\<open>FS.createNode(parent, name, mode, 0)\<close> returns it, with
  the \<^verbatim>\<open>remote_path\<close> the adapter stores on it (\<open>None\<close>: the property is undefined).
\<close>

record fsnode =
  node_name :: string
  node_mode :: "32 word"
  remote_path :: "string option"

definition S_IFREG :: "32 word" where "S_IFREG = 32768"
definition S_IFDIR :: "32 word" where "S_IFDIR = 16384"

definition pathToURL :: "NetworkFileSystem \<Rightarrow> string \<Rightarrow> string" where
  "pathToURL nfs remotePath = scheme nfs @ ''://'' @ remotePath"

text \<open>The file node a successful lookup creates: mode \<^verbatim>\<open>S_IFREG | 0o444\<close>.\<close>

definition file_node :: "string \<Rightarrow> string \<Rightarrow> fsnode" where
  "file_node name remotePath =
     \<lparr>node_name = name, node_mode = or S_IFREG 292, remote_path = Some remotePath\<rparr>"

text \<open>The root node \<^verbatim>\<open>createFS().mount\<close> returns: a directory with empty remote path.\<close>

definition root_node :: fsnode where
  "root_node = \<lparr>node_name = ''/'', node_mode = or S_IFDIR 365, remote_path = Some []\<rparr>"

text \<open>
  \<^verbatim>\<open>lookup(parent, name)\<close> of the unrestricted adapter: the remote path is the parent's
  remote path, a slash and the name, or the name alone under the root or without a parent.
\<close>

definition lookup_remotePath :: "fsnode option \<Rightarrow> string \<Rightarrow> string" where
  "lookup_remotePath parent name =
     (case parent of
        None \<Rightarrow> name
      | Some p \<Rightarrow>
          (case remote_path p of
             None \<Rightarrow> name
           | Some rp \<Rightarrow> if rp \<noteq> [] then rp @ ''/'' @ name else name))"

definition lookup ::
  "worker \<Rightarrow> fsnode option \<Rightarrow> string \<Rightarrow> NetworkFileSystem \<Rightarrow> (thrown + fsnode) \<times> NetworkFileSystem" where
  "lookup w parent name nfs =
     (let remotePath = lookup_remotePath parent name
      in if cache nfs remotePath \<noteq> None
         then (Inr (file_node name remotePath), nfs)
         else
           (case fetch w (JStr (pathToURL nfs remotePath)) (fetcher nfs) of
              (Inr data, f) \<Rightarrow>
                (Inr (file_node name remotePath),
                 nfs\<lparr>cache := (cache nfs)(remotePath \<mapsto> data), fetcher := f\<rparr>)
            | (Inl err, f) \<Rightarrow>
                (Inl (ErrnoError 44 (''No such file: '' @ remotePath)), nfs\<lparr>fetcher := f\<rparr>)))"





text \<open>The attributes \<^verbatim>\<open>setattr\<close> is called with: each may be absent.\<close>

record attr =
  attr_mode :: "32 word option"
  attr_size :: "nat option"
  attr_timestamp :: "nat option"


subsection \<open>Stream operations\<close>

text \<open>
  \<^verbatim>\<open>TypedArray.prototype.slice(start, end)\<close>: a negative index counts from the end, both
  are clamped to the array, and an empty range gives an empty array.
\<close>

definition rel_index :: "int \<Rightarrow> int \<Rightarrow> int" where
  "rel_index len i = (if i < 0 then max (len + i) 0 else min i len)"

definition typed_slice :: "'a list \<Rightarrow> int \<Rightarrow> int \<Rightarrow> 'a list" where
  "typed_slice xs start stop =
     (let len = int (length xs);
          k = rel_index len start;
          final = rel_index len stop;
          count = max (final - k) 0
      in take (nat count) (drop (nat k) xs))"

text \<open>
  \<^verbatim>\<open>buffer.set(source, offset)\<close>: a \<^verbatim>\<open>RangeError\<close> when the offset is negative or the
  source does not fit; otherwise the source overwrites the buffer from the offset.
\<close>

definition typed_set :: "'a list \<Rightarrow> 'a list \<Rightarrow> int \<Rightarrow> thrown + 'a list" where
  "typed_set buffer src offset =
     (if offset < 0 \<or> int (length src) + offset > int (length buffer) then Inl RangeError
      else Inr (take (nat offset) buffer @ src @ drop (nat offset + length src) buffer))"

text \<open>
  \<^verbatim>\<open>read(stream, buffer, offset, length, position)\<close>: the stream is given by its node. The
  result is the number returned and the buffer afterwards. A node that is not cached gives
  0 and leaves the buffer.
\<close>

definition read ::
  "NetworkFileSystem \<Rightarrow> fsnode \<Rightarrow> bytes \<Rightarrow> int \<Rightarrow> int \<Rightarrow> int \<Rightarrow> thrown + (int \<times> bytes)" where
  "read nfs node buffer offset len position =
     (case (case remote_path node of None \<Rightarrow> None | Some rp \<Rightarrow> cache nfs rp) of
        None \<Rightarrow> Inr (0, buffer)
      | Some bs \<Rightarrow>
          (let start = position;
               end = min (int (length bs)) (position + len);
               slice = typed_slice bs start end
           in case typed_set buffer slice offset of
                Inl err \<Rightarrow> Inl err
              | Inr buffer' \<Rightarrow> Inr (end - start, buffer')))"

section \<open>Restricted-registry adapter\<close>

text \<open>
  \<^verbatim>\<open>const KNOWN_RESOURCES = { "current-ip": "https://icanhazip.com/" }\<close> is an object
  literal. \<^verbatim>\<open>KNOWN_RESOURCES[name]\<close> reads the literal's own property of that name, or
  else the property of that name that every object literal inherits from
  \<^verbatim>\<open>Object.prototype\<close>; \<open>None\<close> is \<^verbatim>\<open>undefined\<close>.
\<close>

definition KNOWN_RESOURCES_own :: "(string \<times> string) list" where
  "KNOWN_RESOURCES_own = [(''current-ip'', ''https://icanhazip.com/'')]"

definition object_prototype_functions :: "string list" where
  "object_prototype_functions =
     [''constructor'', ''hasOwnProperty'', ''isPrototypeOf'', ''propertyIsEnumerable'',
      ''toLocaleString'', ''toString'', ''valueOf'', ''__defineGetter__'',
      ''__defineSetter__'', ''__lookupGetter__'', ''__lookupSetter__'']"

definition object_prototype_get :: "string \<Rightarrow> jsval option" where
  "object_prototype_get name =
     (if name \<in> set object_prototype_functions then Some (JFun name)
      else if name = ''__proto__'' then Some JProto
      else None)"

definition KNOWN_RESOURCES :: "string \<Rightarrow> jsval option" where
  "KNOWN_RESOURCES name =
     (case map_of KNOWN_RESOURCES_own name of
        Some url \<Rightarrow> Some (JStr url)
      | None \<Rightarrow> object_prototype_get name)"

text \<open>
  \<^verbatim>\<open>lookup(parent, name)\<close> of the restricted adapter. The remote path is
  \<^verbatim>\<open>parent.remote_path + "/" + name\<close>, where an undefined remote path reads
  \<^verbatim>\<open>"undefined"\<close>.
\<close>

definition restricted_remotePath :: "fsnode \<Rightarrow> string \<Rightarrow> string" where
  "restricted_remotePath parent name =
     (case remote_path parent of None \<Rightarrow> ''undefined'' | Some rp \<Rightarrow> rp) @ ''/'' @ name"

definition restricted_lookup ::
  "worker \<Rightarrow> fsnode \<Rightarrow> string \<Rightarrow> NetworkFileSystem \<Rightarrow> (thrown + fsnode) \<times> NetworkFileSystem" where
  "restricted_lookup w parent name nfs =
     (let remotePath = restricted_remotePath parent name
      in if cache nfs remotePath \<noteq> None
         then (Inr (file_node name remotePath), nfs)
         else
           (case (case KNOWN_RESOURCES name of
                    None \<Rightarrow> None
                  | Some v \<Rightarrow> if truthy v then Some v else None) of
              None \<Rightarrow> (Inl (ErrnoError 44 (''No such file: '' @ remotePath)), nfs)
            | Some url \<Rightarrow>
                (case fetch w url (fetcher nfs) of
                   (Inr data, f) \<Rightarrow>
                     (Inr (file_node name remotePath),
                      nfs\<lparr>cache := (cache nfs)(remotePath \<mapsto> data), fetcher := f\<rparr>)
                 | (Inl err, f) \<Rightarrow>
                     (Inl (ErrnoError 44 (''No such file: '' @ remotePath)), nfs\<lparr>fetcher := f\<rparr>))))"

section \<open>Call-interception adapter (the first \<^verbatim>\<open>NetworkFileSystem\<close>, which patches \<^verbatim>\<open>FS.open\<close>, \<^verbatim>\<open>FS.stat\<close> and \<^verbatim>\<open>FS.lstat\<close>)\<close>

text \<open>
  The host filesystem is the interpreter's own: its entry points are parameters of the
  model, over any type \<open>'fs\<close> of filesystem states. \<open>original_open\<close>, \<open>original_stat\<close>
  and \<open>original_lstat\<close> are the entry points saved in \<^verbatim>\<open>this.original\<close> before
  patching (\<open>original_lstat\<close> is \<open>None\<close> when the host has no \<^verbatim>\<open>lstat\<close>); each returns
  its value or what it throws. \<open>mkdirTree\<close> and \<open>writeFile\<close> are the host's
  functions of these names (the host's \<^verbatim>\<open>writeFile\<close> opens its file write-only, for
  which the patched \<^verbatim>\<open>open\<close> fetches nothing). \<open>ERRNO_ENOENT\<close> is
  \<^verbatim>\<open>pyodide.ERRNO_CODES.ENOENT\<close>.
\<close>

datatype path_arg = PathString string | PathNode string | PathOther

datatype open_flags = FlagString string | FlagNumber int

record stat =
  st_size :: nat
  st_mtime :: nat

record stream =
  stream_path :: path_arg
  stream_flags :: open_flags
  stream_mode :: nat

record 'fs host =
  original_open :: "path_arg \<Rightarrow> open_flags \<Rightarrow> nat \<Rightarrow> 'fs \<Rightarrow> (thrown + stream) \<times> 'fs"
  original_stat :: "path_arg \<Rightarrow> bool option \<Rightarrow> 'fs \<Rightarrow> thrown + stat"
  original_lstat :: "(path_arg \<Rightarrow> 'fs \<Rightarrow> thrown + stat) option"
  mkdirTree :: "string \<Rightarrow> 'fs \<Rightarrow> (thrown + unit) \<times> 'fs"
  writeFile :: "string \<Rightarrow> bytes \<Rightarrow> 'fs \<Rightarrow> (thrown + unit) \<times> 'fs"
  ERRNO_ENOENT :: nat

text \<open>The cache of this adapter holds, per virtual path, the metadata of the fetch.\<close>

record meta =
  meta_path :: string
  meta_url :: string
  meta_bytes :: nat
  meta_timestamp :: nat

record 'fs NetworkFileSystem_o =
  scheme_o :: string
  mountPoint_o :: string
  cache_o :: "string \<rightharpoonup> meta"
  fetcher_o :: SyncFetchWorker
  hostFS :: 'fs

definition O_ACCMODE :: int where "O_ACCMODE = 3"
definition O_WRONLY :: int where "O_WRONLY = 1"

definition startsWith :: "string \<Rightarrow> string \<Rightarrow> bool" where
  "startsWith s p = (take (length p) s = p)"

text \<open>\<^verbatim>\<open>remote.replace(/^\/+/, "")\<close>: the string without its leading slashes.\<close>

definition strip_slashes :: "string \<Rightarrow> string" where
  "strip_slashes s = dropWhile (\<lambda>c. c = CHR ''/'') s"

definition isWithinMount :: "'fs NetworkFileSystem_o \<Rightarrow> string \<Rightarrow> bool" where
  "isWithinMount s fsPath =
     (if fsPath = mountPoint_o s then True else startsWith fsPath (mountPoint_o s @ ''/''))"

definition extractRemotePath :: "'fs NetworkFileSystem_o \<Rightarrow> string \<Rightarrow> string" where
  "extractRemotePath s fsPath =
     (if \<not> isWithinMount s fsPath then []
      else
        (let pfx = (if mountPoint_o s = ''/'' then ''/'' else mountPoint_o s @ ''/'');
             remote = (if startsWith fsPath pfx then drop (length pfx) fsPath else fsPath)
         in strip_slashes remote))"

definition pathToURL_o :: "'fs NetworkFileSystem_o \<Rightarrow> string \<Rightarrow> thrown + string" where
  "pathToURL_o s fsPath =
     (let remotePath = extractRemotePath s fsPath
      in if remotePath = [] then Inl (JsError (''No remote resource specified for '' @ fsPath))
         else Inr (scheme_o s @ ''://'' @ remotePath))"

text \<open>
  \<^verbatim>\<open>fsPath.substring(0, fsPath.lastIndexOf("/")) || "/"\<close>: the path before its last
  slash, or \<^verbatim>\<open>"/"\<close> when that is empty or the path has no slash.
\<close>

definition dirname_of :: "string \<Rightarrow> string" where
  "dirname_of fsPath =
     (let d = rev (drop 1 (dropWhile (\<lambda>c. c \<noteq> CHR ''/'') (rev fsPath)))
      in if d = [] then ''/'' else d)"

text \<open>\<^verbatim>\<open>error instanceof ErrnoError && error.errno === code\<close>.\<close>

fun is_errno :: "nat \<Rightarrow> thrown \<Rightarrow> bool" where
  "is_errno code (ErrnoError n m) = (n = code)"
| "is_errno code (JsError m) = False"
| "is_errno code RangeError = False"

fun message_of :: "thrown \<Rightarrow> string" where
  "message_of (JsError m) = m"
| "message_of (ErrnoError n m) = m"
| "message_of RangeError = ''offset is out of bounds''"

definition ensureParentDirectories ::
  "'fs host \<Rightarrow> string \<Rightarrow> 'fs NetworkFileSystem_o \<Rightarrow> (thrown + unit) \<times> 'fs NetworkFileSystem_o" where
  "ensureParentDirectories h fsPath s =
     (let dirname = dirname_of fsPath
      in if dirname = ''/'' \<or> dirname = mountPoint_o s then (Inr (), s)
         else
           (case original_stat h (PathString dirname) None (hostFS s) of
              Inr st \<Rightarrow> (Inr (), s)
            | Inl err \<Rightarrow>
                if is_errno (ERRNO_ENOENT h) err
                then (case mkdirTree h dirname (hostFS s) of
                        (r, fs') \<Rightarrow> (r, s\<lparr>hostFS := fs'\<rparr>))
                else (Inl err, s)))"

definition normalizeToMount :: "'fs NetworkFileSystem_o \<Rightarrow> string \<Rightarrow> string option" where
  "normalizeToMount s path =
     (if path = [] then None
      else if startsWith path (mountPoint_o s) then Some path
      else if startsWith path ''/'' then Some (mountPoint_o s @ path)
      else Some (mountPoint_o s @ ''/'' @ path))"

text \<open>
  \<^verbatim>\<open>normalizePathArg\<close>: a string is normalized to the mount; a node (an object with a
  \<^verbatim>\<open>mount\<close> property, here given by the path \<^verbatim>\<open>FS.getPath\<close> returns for it) gives its
  path; anything else gives \<^verbatim>\<open>null\<close>.
\<close>

fun normalizePathArg :: "'fs NetworkFileSystem_o \<Rightarrow> path_arg \<Rightarrow> string option" where
  "normalizePathArg s (PathString p) = normalizeToMount s p"
| "normalizePathArg s (PathNode p) = Some p"
| "normalizePathArg s PathOther = None"

definition fileExists :: "'fs host \<Rightarrow> 'fs NetworkFileSystem_o \<Rightarrow> string \<Rightarrow> thrown + bool" where
  "fileExists h s fsPath =
     (case original_stat h (PathString fsPath) None (hostFS s) of
        Inr st \<Rightarrow> Inr True
      | Inl err \<Rightarrow> if is_errno (ERRNO_ENOENT h) err then Inr False else Inl err)"

fun shouldFetchForOpen :: "open_flags \<Rightarrow> bool" where
  "shouldFetchForOpen (FlagString flags) = (CHR ''w'' \<notin> set flags \<and> CHR ''a'' \<notin> set flags)"
| "shouldFetchForOpen (FlagNumber flags) = (and flags O_ACCMODE \<noteq> O_WRONLY)"

text \<open>
  \<^verbatim>\<open>ensureFileSync(path)\<close>: returns the metadata of the materialized file, \<^verbatim>\<open>null\<close>
  (\<open>None\<close>) when there is nothing to fetch, or throws.
\<close>

definition ensureFileSync ::
  "'fs host \<Rightarrow> worker \<Rightarrow> string \<Rightarrow> 'fs NetworkFileSystem_o
     \<Rightarrow> (thrown + meta option) \<times> 'fs NetworkFileSystem_o" where
  "ensureFileSync h w path s =
     (case normalizeToMount s path of
        None \<Rightarrow> (Inr None, s)
      | Some fsPath \<Rightarrow>
          if \<not> isWithinMount s fsPath then (Inr None, s)
          else if extractRemotePath s fsPath = [] then (Inr None, s)
          else
            (case (if cache_o s fsPath \<noteq> None then fileExists h s fsPath else Inr False) of
               Inl err \<Rightarrow> (Inl err, s)
             | Inr True \<Rightarrow> (Inr (cache_o s fsPath), s)
             | Inr False \<Rightarrow>
                 (case pathToURL_o s fsPath of
                    Inl err \<Rightarrow> (Inl err, s)
                  | Inr url \<Rightarrow>
                      (case fetch w (JStr url) (fetcher_o s) of
                         (Inl err, f) \<Rightarrow>
                           (Inl (ErrnoError (ERRNO_ENOENT h) (message_of err)), s\<lparr>fetcher_o := f\<rparr>)
                       | (Inr data, f) \<Rightarrow>
                           (case ensureParentDirectories h fsPath (s\<lparr>fetcher_o := f\<rparr>) of
                              (Inl err, s2) \<Rightarrow> (Inl err, s2)
                            | (Inr u, s2) \<Rightarrow>
                                (case writeFile h fsPath data (hostFS s2) of
                                   (Inl err, fs3) \<Rightarrow> (Inl err, s2\<lparr>hostFS := fs3\<rparr>)
                                 | (Inr u', fs3) \<Rightarrow>
                                     (case original_stat h (PathString fsPath) None fs3 of
                                        Inl err \<Rightarrow> (Inl err, s2\<lparr>hostFS := fs3\<rparr>)
                                      | Inr st \<Rightarrow>
                                          (let m = \<lparr>meta_path = fsPath, meta_url = url,
                                                    meta_bytes = length data,
                                                    meta_timestamp = st_mtime st\<rparr>
                                           in (Inr (Some m),
                                               s2\<lparr>hostFS := fs3,
                                                  cache_o := (cache_o s2)(fsPath \<mapsto> m)\<rparr>)))))))))"

text \<open>
  The patched entry points. \<^verbatim>\<open>if (normalized && ...)\<close> holds for a non-empty string.
  The materialization runs first and its exception, if any, leaves the entry point; then the
  original entry point is called with the arguments as they came.
\<close>

definition materialize_if ::
  "bool \<Rightarrow> 'fs host \<Rightarrow> worker \<Rightarrow> string option \<Rightarrow> 'fs NetworkFileSystem_o
     \<Rightarrow> (thrown + meta option) \<times> 'fs NetworkFileSystem_o" where
  "materialize_if cond h w normalized s =
     (case normalized of
        None \<Rightarrow> (Inr None, s)
      | Some p \<Rightarrow> if p \<noteq> [] \<and> cond then ensureFileSync h w p s else (Inr None, s))"

definition patchedOpen ::
  "'fs host \<Rightarrow> worker \<Rightarrow> path_arg \<Rightarrow> open_flags \<Rightarrow> nat option \<Rightarrow> 'fs NetworkFileSystem_o
     \<Rightarrow> (thrown + stream) \<times> 'fs NetworkFileSystem_o" where
  "patchedOpen h w pathArg flags mode s =
     (case materialize_if (shouldFetchForOpen flags) h w (normalizePathArg s pathArg) s of
        (Inl err, s') \<Rightarrow> (Inl err, s')
      | (Inr m, s') \<Rightarrow>
          (case original_open h pathArg flags (case mode of None \<Rightarrow> 438 | Some md \<Rightarrow> md) (hostFS s') of
             (r, fs') \<Rightarrow> (r, s'\<lparr>hostFS := fs'\<rparr>)))"

definition patchedStat ::
  "'fs host \<Rightarrow> worker \<Rightarrow> path_arg \<Rightarrow> bool option \<Rightarrow> 'fs NetworkFileSystem_o
     \<Rightarrow> (thrown + stat) \<times> 'fs NetworkFileSystem_o" where
  "patchedStat h w pathArg dontFollow s =
     (case materialize_if True h w (normalizePathArg s pathArg) s of
        (Inl err, s') \<Rightarrow> (Inl err, s')
      | (Inr m, s') \<Rightarrow> (original_stat h pathArg dontFollow (hostFS s'), s'))"

text \<open>\<^verbatim>\<open>FS.lstat\<close> is patched only when the host has one: \<open>None\<close> otherwise.\<close>

definition patchedLstat ::
  "'fs host \<Rightarrow> worker \<Rightarrow> path_arg \<Rightarrow> 'fs NetworkFileSystem_o
     \<Rightarrow> ((thrown + stat) \<times> 'fs NetworkFileSystem_o) option" where
  "patchedLstat h w pathArg s =
     (case original_lstat h of
        None \<Rightarrow> None
      | Some lstat \<Rightarrow>
          Some (case materialize_if True h w (normalizePathArg s pathArg) s of
                  (Inl err, s') \<Rightarrow> (Inl err, s')
                | (Inr m, s') \<Rightarrow> (lstat pathArg (hostFS s'), s')))"

section \<open>Execution state (\<^verbatim>\<open>AgentState\<close>)\<close>

text \<open>
  The result object of a tool run, \<^verbatim>\<open>{stdout, stderr, success}\<close>; a content block of a
  message (a tool-result block carries the JSON text of the result, or nothing when no tool
  ran: \<^verbatim>\<open>JSON.stringify(undefined)\<close>); a message, \<^verbatim>\<open>{role, content}\<close>.
\<close>

record tool_result =
  tr_stdout :: string
  tr_stderr :: string
  tr_success :: bool

datatype block =
    TextBlock string
  | ToolUse string string string
  | ToolResult string "tool_result option"

datatype message_content = Text string | Blocks "block list"

record message =
  role :: string
  content :: message_content

record output_capture =
  stdout :: string
  stderr :: string

record metadata =
  taskId :: "string option"
  createdAt :: nat
  lastModified :: nat

text \<open>
  The state as a value. \<^verbatim>\<open>networkCache\<close> and \<^verbatim>\<open>outputFiles\<close> are objects used as
  dictionaries from a name to base64 text. The field \<^verbatim>\<open>done\<close> is \<open>done_flag\<close> here.
\<close>

record AgentState =
  messages :: "message list"
  stepCount :: nat
  outputCapture :: output_capture
  networkCache :: "string \<rightharpoonup> string"
  outputFiles :: "string \<rightharpoonup> string"
  done_flag :: bool
  metadata :: metadata

text \<open>
  The plain object \<^verbatim>\<open>serialize\<close> returns and the constructor and \<^verbatim>\<open>deserialize\<close>
  take: every field may be missing (\<open>None\<close>).
\<close>

record state_record =
  r_messages :: "message list option"
  r_stepCount :: "nat option"
  r_outputCapture :: "output_capture option"
  r_networkCache :: "(string \<rightharpoonup> string) option"
  r_outputFiles :: "(string \<rightharpoonup> string) option"
  r_done :: "bool option"
  r_metadata :: "metadata option"

text \<open>
  \<^verbatim>\<open>data.field || default\<close>: the default stands in for a missing field and for a falsy
  one (0 and \<^verbatim>\<open>false\<close>, which are the defaults of their fields). \<open>now1\<close> and
  \<open>now2\<close> are the two readings of \<^verbatim>\<open>Date.now()\<close> the default metadata takes.
\<close>

definition new_AgentState :: "nat \<Rightarrow> nat \<Rightarrow> state_record \<Rightarrow> AgentState" where
  "new_AgentState now1 now2 data =
     \<lparr>messages = (case r_messages data of None \<Rightarrow> [] | Some m \<Rightarrow> m),
      stepCount = (case r_stepCount data of None \<Rightarrow> 0 | Some n \<Rightarrow> if n = 0 then 0 else n),
      outputCapture =
        (case r_outputCapture data of None \<Rightarrow> \<lparr>stdout = [], stderr = []\<rparr> | Some c \<Rightarrow> c),
      networkCache = (case r_networkCache data of None \<Rightarrow> Map.empty | Some c \<Rightarrow> c),
      outputFiles = (case r_outputFiles data of None \<Rightarrow> Map.empty | Some c \<Rightarrow> c),
      done_flag = (case r_done data of None \<Rightarrow> False | Some b \<Rightarrow> if b then b else False),
      metadata =
        (case r_metadata data of
           None \<Rightarrow> \<lparr>taskId = None, createdAt = now1, lastModified = now2\<rparr>
         | Some m \<Rightarrow> m)\<rparr>"

text \<open>\<^verbatim>\<open>serialize()\<close>; \<open>now\<close> is its reading of \<^verbatim>\<open>Date.now()\<close>.\<close>

definition serialize :: "nat \<Rightarrow> AgentState \<Rightarrow> state_record" where
  "serialize now s =
     \<lparr>r_messages = Some (messages s),
      r_stepCount = Some (stepCount s),
      r_outputCapture = Some (outputCapture s),
      r_networkCache = Some (networkCache s),
      r_outputFiles = Some (outputFiles s),
      r_done = Some (done_flag s),
      r_metadata = Some ((metadata s)\<lparr>lastModified := now\<rparr>)\<rparr>"

definition deserialize :: "nat \<Rightarrow> nat \<Rightarrow> state_record \<Rightarrow> AgentState" where
  "deserialize now1 now2 data = new_AgentState now1 now2 data"

text \<open>A record with no field at all: \<^verbatim>\<open>{}\<close>.\<close>

definition empty_record :: state_record where
  "empty_record =
     \<lparr>r_messages = None, r_stepCount = None, r_outputCapture = None, r_networkCache = None,
      r_outputFiles = None, r_done = None, r_metadata = None\<rparr>"

section \<open>The object graph of a state (\<^verbatim>\<open>clone\<close>)\<close>

text \<open>
  \<^verbatim>\<open>clone()\<close> is about which objects two states share, so here a state is an object in
  a store. A reference is an index into the store. A state object holds its numbers and
  booleans and references to its five containers: the \<^verbatim>\<open>messages\<close> array, whose elements
  are references to message objects, and the \<^verbatim>\<open>outputCapture\<close>, \<^verbatim>\<open>networkCache\<close>,
  \<^verbatim>\<open>outputFiles\<close> and \<^verbatim>\<open>metadata\<close> objects, whose fields are strings and numbers.
\<close>

type_synonym ref = nat

datatype obj =
    StateObj ref nat ref ref ref bool ref
  | ArrayObj "ref list"
  | MessageObj message
  | CaptureObj output_capture
  | DictObj "string \<rightharpoonup> string"
  | MetadataObj metadata

type_synonym heap = "obj list"

definition deref :: "heap \<Rightarrow> ref \<Rightarrow> obj option" where
  "deref h r = (if r < length h then Some (h ! r) else None)"

text \<open>A new object is put at the end of the store; its reference is the old length.\<close>

definition alloc :: "heap \<Rightarrow> obj \<Rightarrow> heap \<times> ref" where
  "alloc h ob = (h @ [ob], length h)"

text \<open>
  \<^verbatim>\<open>clone()\<close>: the spread \<^verbatim>\<open>[...this.messages]\<close> makes a new array with the same
  elements, each \<^verbatim>\<open>{ ...this.field }\<close> a new object with the same fields, and the
  constructor keeps the containers it is given (each is truthy). \<open>None\<close> when \<open>this\<close> is
  not a state object with its five containers.
\<close>

definition clone :: "heap \<Rightarrow> ref \<Rightarrow> (heap \<times> ref) option" where
  "clone h this =
     (case deref h this of
        Some (StateObj m n c nc ofs d md) \<Rightarrow>
          (case (deref h m, deref h c, deref h nc, deref h ofs, deref h md) of
             (Some (ArrayObj elems), Some (CaptureObj cap), Some (DictObj ncd),
              Some (DictObj ofd), Some (MetadataObj mt)) \<Rightarrow>
               (let (h1, m') = alloc h (ArrayObj elems);
                    (h2, c') = alloc h1 (CaptureObj cap);
                    (h3, nc') = alloc h2 (DictObj ncd);
                    (h4, ofs') = alloc h3 (DictObj ofd);
                    (h5, md') = alloc h4 (MetadataObj mt);
                    (h6, this') = alloc h5 (StateObj m' n c' nc' ofs' d md')
                in Some (h6, this'))
           | _ \<Rightarrow> None)
      | _ \<Rightarrow> None)"

text \<open>The value of the state object at a reference, read through the store.\<close>

definition read_message :: "heap \<Rightarrow> ref \<Rightarrow> message option" where
  "read_message h r = (case deref h r of Some (MessageObj msg) \<Rightarrow> Some msg | _ \<Rightarrow> None)"

definition read_state :: "heap \<Rightarrow> ref \<Rightarrow> AgentState option" where
  "read_state h this =
     (case deref h this of
        Some (StateObj m n c nc ofs d md) \<Rightarrow>
          (case (deref h m, deref h c, deref h nc, deref h ofs, deref h md) of
             (Some (ArrayObj elems), Some (CaptureObj cap), Some (DictObj ncd),
              Some (DictObj ofd), Some (MetadataObj mt)) \<Rightarrow>
               (case those (map (read_message h) elems) of
                  Some msgs \<Rightarrow>
                    Some \<lparr>messages = msgs, stepCount = n, outputCapture = cap,
                          networkCache = ncd, outputFiles = ofd, done_flag = d, metadata = mt\<rparr>
                | None \<Rightarrow> None)
           | _ \<Rightarrow> None)
      | _ \<Rightarrow> None)"

text \<open>
  The state object at a reference together with its five containers, and the message
  objects its \<^verbatim>\<open>messages\<close> array holds: everything a mutation can reach from the state.
\<close>

definition own_containers :: "heap \<Rightarrow> ref \<Rightarrow> ref list" where
  "own_containers h this =
     (case deref h this of
        Some (StateObj m n c nc ofs d md) \<Rightarrow> [this, m, c, nc, ofs, md]
      | _ \<Rightarrow> [])"

definition message_objects :: "heap \<Rightarrow> ref \<Rightarrow> ref list" where
  "message_objects h this =
     (case deref h this of
        Some (StateObj m n c nc ofs d md) \<Rightarrow>
          (case deref h m of Some (ArrayObj elems) \<Rightarrow> elems | _ \<Rightarrow> [])
      | _ \<Rightarrow> [])"

definition reachable :: "heap \<Rightarrow> ref \<Rightarrow> ref list" where
  "reachable h this = own_containers h this @ message_objects h this"

section \<open>Durable step loop and state cache\<close>

text \<open>
  The collaborators of the loop are parameters. \<open>client_create\<close> is
  \<^verbatim>\<open>client.messages.create\<close>: given how many requests were made before and the message
  history, the response or the message of the error it throws. \<open>runPython\<close> is the
  interpreter running a code string (\<^verbatim>\<open>loadPackagesFromImports\<close>, then
  \<^verbatim>\<open>runPythonAsync\<close>) against its own state and the mounted adapter: it gives both
  afterwards, the text it wrote to stdout and to stderr, and the message of the error it
  raised, if any. \<open>readOutput\<close> lists and reads the files of \<^verbatim>\<open>/output\<close> (\<open>None\<close>
  when the directory cannot be listed; a file that cannot be read is left out);
  \<open>writeOutput\<close> creates \<^verbatim>\<open>/output\<close> when missing and writes the given files;
  \<open>mkdirOutput\<close> is \<^verbatim>\<open>FS.mkdir("/output")\<close>. \<open>toBase64\<close> and \<open>fromBase64\<close> are
  \<^verbatim>\<open>Buffer\<close>'s base64 conversions. \<open>now_save n\<close> is the reading of \<^verbatim>\<open>Date.now()\<close>
  when the snapshot of step \<open>n\<close> is serialized, \<open>now_load n\<close> the two readings a snapshot
  of step \<open>n\<close> without metadata takes when it is loaded. \<open>cacheSubdirExists name\<close>
  says, for a file name with a slash in it, whether the directory that
  \<^verbatim>\<open>path.join(cacheDir, name)\<close> puts the file in exists on the host.
\<close>

record response =
  stop_reason :: string
  response_content :: "block list"

record 'py python_run =
  py_after :: 'py
  nfs_after :: NetworkFileSystem
  emitted_stdout :: string
  emitted_stderr :: string
  raised :: "string option"

record 'py env =
  client_create :: "nat \<Rightarrow> message list \<Rightarrow> string + response"
  runPython :: "string \<Rightarrow> 'py \<Rightarrow> NetworkFileSystem \<Rightarrow> 'py python_run"
  readOutput :: "'py \<Rightarrow> (string \<rightharpoonup> bytes) option"
  writeOutput :: "(string \<rightharpoonup> bytes) \<Rightarrow> 'py \<Rightarrow> 'py"
  mkdirOutput :: "'py \<Rightarrow> 'py"
  toBase64 :: "bytes \<Rightarrow> string"
  fromBase64 :: "string \<Rightarrow> bytes"
  now_save :: "nat \<Rightarrow> nat"
  now_load :: "nat \<Rightarrow> nat \<times> nat"
  cacheSubdirExists :: "string \<Rightarrow> bool"

text \<open>
  The cache directory: the file of a task and step holds the JSON text of a serialized
  state, or text that does not parse to a record. The file name
  \<^verbatim>\<open>`${taskId}-step-${stepCount}.json`\<close> determines the step of a task, so the
  directory is a map from task and step to the file.
\<close>

datatype snapshot_file = Snapshot state_record | Unparsable

type_synonym snapshot_store = "(string \<times> nat) \<rightharpoonup> snapshot_file"

fun decimal :: "nat \<Rightarrow> string" where
  "decimal n =
     (if n < 10 then [char_of (48 + n)]
      else decimal (n div 10) @ [char_of (48 + n mod 10)])"

declare decimal.simps [simp del]

definition cacheFileName :: "string \<Rightarrow> nat \<Rightarrow> string" where
  "cacheFileName task n = task @ ''-step-'' @ decimal n @ ''.json''"

text \<open>
  \<^verbatim>\<open>saveState\<close> creates the cache directory, and only that one, and writes the file
  with \<^verbatim>\<open>fs.writeFileSync\<close>. The digits, \<^verbatim>\<open>-step-\<close> and \<^verbatim>\<open>.json\<close> have no slash,
  so the file lies in the cache directory itself unless the task id has a slash; with a
  slash in the task id it lies in another directory, and the write throws when that
  directory does not exist. The result is the error thrown or the directory afterwards.
\<close>

definition saveState ::
  "'py env \<Rightarrow> nat \<Rightarrow> string \<Rightarrow> nat \<Rightarrow> AgentState \<Rightarrow> snapshot_store
     \<Rightarrow> string + snapshot_store" where
  "saveState e now task n st store =
     (if CHR ''/'' \<in> set task \<and> \<not> cacheSubdirExists e (cacheFileName task n)
      then Inl (''ENOENT: no such file or directory, open '' @ cacheFileName task n)
      else Inr (store((task, n) \<mapsto> Snapshot (serialize now st))))"

definition loadState :: "nat \<times> nat \<Rightarrow> snapshot_store \<Rightarrow> string \<Rightarrow> nat \<Rightarrow> AgentState option" where
  "loadState nows store task n =
     (case store (task, n) of
        None \<Rightarrow> None
      | Some Unparsable \<Rightarrow> None
      | Some (Snapshot data) \<Rightarrow> Some (deserialize (fst nows) (snd nows) data))"

text \<open>\<^verbatim>\<open>clearCache(taskId)\<close> deletes every file whose name starts with the task id and a dash.\<close>

definition clearCache :: "string \<Rightarrow> snapshot_store \<Rightarrow> snapshot_store" where
  "clearCache task store =
     (\<lambda>(t, n). if startsWith (cacheFileName t n) (task @ ''-'') then None else store (t, n))"

text \<open>
  The running loop: the variable \<^verbatim>\<open>state\<close>; the object \<^verbatim>\<open>outputCaptureRef\<close> that the
  interpreter's stdout and stderr handlers append to, and whether \<^verbatim>\<open>state.outputCapture\<close>
  is still that object (it is until a snapshot is adopted); the interpreter; the mounted
  adapter; the cache directory; and the step numbers for which a request was sent to the
  reasoning collaborator, oldest first.
\<close>

record 'py world =
  state :: AgentState
  outputCaptureRef :: output_capture
  aliased :: bool
  pyodide :: 'py
  networkFS :: NetworkFileSystem
  snapshots :: snapshot_store
  api_log :: "nat list"

record options =
  maxSteps :: nat
  useCache :: bool
  clearCacheOnStart :: bool

definition captureNetworkCache :: "'py env \<Rightarrow> NetworkFileSystem \<Rightarrow> AgentState \<Rightarrow> AgentState" where
  "captureNetworkCache e nfs st =
     st\<lparr>networkCache := (\<lambda>k. map_option (toBase64 e) (cache nfs k))\<rparr>"

definition restoreNetworkCache :: "'py env \<Rightarrow> AgentState \<Rightarrow> NetworkFileSystem \<Rightarrow> NetworkFileSystem" where
  "restoreNetworkCache e st nfs =
     nfs\<lparr>cache := (\<lambda>k. map_option (fromBase64 e) (networkCache st k))\<rparr>"

definition captureOutputFiles :: "'py env \<Rightarrow> 'py \<Rightarrow> AgentState \<Rightarrow> AgentState" where
  "captureOutputFiles e py st =
     st\<lparr>outputFiles :=
          (case readOutput e py of
             None \<Rightarrow> Map.empty
           | Some files \<Rightarrow> (\<lambda>k. map_option (toBase64 e) (files k)))\<rparr>"

definition restoreOutputFiles :: "'py env \<Rightarrow> AgentState \<Rightarrow> 'py \<Rightarrow> 'py" where
  "restoreOutputFiles e st py =
     writeOutput e (\<lambda>k. map_option (fromBase64 e) (outputFiles st k)) py"

text \<open>
  The interpreter's handlers append to \<^verbatim>\<open>outputCaptureRef\<close>; an assignment to
  \<^verbatim>\<open>state.outputCapture.stdout\<close> writes the object of the state. Both are one object
  while \<open>aliased\<close> holds.
\<close>

definition emit :: "string \<Rightarrow> string \<Rightarrow> 'py world \<Rightarrow> 'py world" where
  "emit out err w =
     (let c = outputCaptureRef w;
          c' = c\<lparr>stdout := stdout c @ out, stderr := stderr c @ err\<rparr>
      in w\<lparr>outputCaptureRef := c',
           state := (if aliased w then (state w)\<lparr>outputCapture := c'\<rparr> else state w)\<rparr>)"

definition set_state_capture :: "output_capture \<Rightarrow> 'py world \<Rightarrow> 'py world" where
  "set_state_capture c w =
     w\<lparr>state := (state w)\<lparr>outputCapture := c\<rparr>,
       outputCaptureRef := (if aliased w then c else outputCaptureRef w)\<rparr>"

definition executePythonCode :: "'py env \<Rightarrow> string \<Rightarrow> 'py world \<Rightarrow> tool_result \<times> 'py world" where
  "executePythonCode e code w =
     (let run = runPython e code (pyodide w) (networkFS w);
          w1 = emit (emitted_stdout run) (emitted_stderr run)
                 (w\<lparr>pyodide := py_after run, networkFS := nfs_after run\<rparr>);
          cap = outputCapture (state w1);
          result =
            (case raised run of
               None \<Rightarrow> \<lparr>tr_stdout = stdout cap, tr_stderr = stderr cap, tr_success = True\<rparr>
             | Some msg \<Rightarrow>
                 \<lparr>tr_stdout = stdout cap, tr_stderr = stderr cap @ msg, tr_success = False\<rparr>)
      in (result, set_state_capture \<lparr>stdout = [], stderr = []\<rparr> w1))"

text \<open>The loop over the content blocks of a response that asks for tools.\<close>

fun run_tools :: "'py env \<Rightarrow> block list \<Rightarrow> 'py world \<Rightarrow> block list \<times> 'py world" where
  "run_tools e [] w = ([], w)"
| "run_tools e (ToolUse ident name code # bs) w =
     (case (if name = ''execute_python''
            then (case executePythonCode e code w of (r, w') \<Rightarrow> (Some r, w'))
            else (None, w)) of
        (res, w1) \<Rightarrow>
          (case run_tools e bs w1 of
             (rest, w2) \<Rightarrow> (ToolResult ident res # rest, w2)))"
| "run_tools e (b # bs) w = run_tools e bs w"

definition push_message :: "message \<Rightarrow> 'py world \<Rightarrow> 'py world" where
  "push_message msg w = w\<lparr>state := (state w)\<lparr>messages := messages (state w) @ [msg]\<rparr>\<rparr>"

text \<open>
  \<^verbatim>\<open>runAgenticStep\<close>: the result is \<^verbatim>\<open>result.done\<close>, or the message of the error the
  request threw.
\<close>

definition runAgenticStep :: "'py env \<Rightarrow> 'py world \<Rightarrow> (string + bool) \<times> 'py world" where
  "runAgenticStep e w =
     (let n = stepCount (state w) + 1;
          w1 = w\<lparr>state := (state w)\<lparr>stepCount := n\<rparr>, api_log := api_log w @ [n]\<rparr>
      in case client_create e (length (api_log w)) (messages (state w1)) of
           Inl err \<Rightarrow> (Inl err, w1)
         | Inr resp \<Rightarrow>
             (let w2 = push_message
                         \<lparr>role = ''assistant'', content = Blocks (response_content resp)\<rparr> w1
              in if stop_reason resp = ''end_turn''
                 then (Inr True, w2\<lparr>state := (state w2)\<lparr>done_flag := True\<rparr>\<rparr>)
                 else
                   (let w3 =
                          (if stop_reason resp = ''tool_use''
                           then (case run_tools e (response_content resp) w2 of
                                   (toolResults, w') \<Rightarrow>
                                     push_message \<lparr>role = ''user'', content = Blocks toolResults\<rparr> w')
                           else w2);
                        w4 = w3\<lparr>state := captureOutputFiles e (pyodide w3)
                                            (captureNetworkCache e (networkFS w3) (state w3))\<rparr>
                    in (Inr False, w4))))"

text \<open>
  One iteration of the \<^verbatim>\<open>while\<close> loop of \<^verbatim>\<open>agenticLoop\<close>, entered with
  \<^verbatim>\<open>state.stepCount < maxSteps\<close>: the result is whether the loop breaks
  (\<^verbatim>\<open>reachedEndCondition\<close>), or the error that leaves the loop, thrown by the request
  or by the write of the snapshot.
\<close>

definition loop_body ::
  "'py env \<Rightarrow> options \<Rightarrow> string \<Rightarrow> 'py world \<Rightarrow> (string + bool) \<times> 'py world" where
  "loop_body e opts task w =
     (let nextStepCount = stepCount (state w) + 1;
          cachedState =
            (if useCache opts
             then loadState (now_load e nextStepCount) (snapshots w) task nextStepCount
             else None)
      in case cachedState of
           Some cs \<Rightarrow>
             (Inr (done_flag cs),
              w\<lparr>state := cs, aliased := False,
                networkFS := restoreNetworkCache e cs (networkFS w),
                pyodide := restoreOutputFiles e cs (pyodide w)\<rparr>)
         | None \<Rightarrow>
             (case runAgenticStep e w of
                (Inl err, w') \<Rightarrow> (Inl err, w')
              | (Inr d, w') \<Rightarrow>
                  if useCache opts
                  then (case saveState e (now_save e (stepCount (state w'))) task
                               (stepCount (state w')) (state w') (snapshots w') of
                          Inl err \<Rightarrow> (Inl err, w')
                        | Inr store' \<Rightarrow> (Inr d, w'\<lparr>snapshots := store'\<rparr>))
                  else (Inr d, w')))"

text \<open>
  The loop. A snapshot on disk may carry any step count, so the loop need not end; the
  first argument bounds the number of iterations, and \<open>OutOfFuel\<close> says the bound was
  reached with the loop condition still true.
\<close>

datatype outcome = Returned | Threw string | OutOfFuel

fun main_loop ::
  "nat \<Rightarrow> 'py env \<Rightarrow> options \<Rightarrow> string \<Rightarrow> 'py world \<Rightarrow> outcome \<times> 'py world" where
  "main_loop 0 e opts task w =
     (if stepCount (state w) < maxSteps opts then (OutOfFuel, w) else (Returned, w))"
| "main_loop (Suc fuel) e opts task w =
     (if stepCount (state w) < maxSteps opts
      then (case loop_body e opts task w of
              (Inl err, w') \<Rightarrow> (Threw err, w')
            | (Inr brk, w') \<Rightarrow> if brk then (Returned, w') else main_loop fuel e opts task w')
      else (Returned, w))"

text \<open>
  \<^verbatim>\<open>agenticLoop(taskId, initialState, options)\<close>, from a freshly loaded interpreter
  \<open>py0\<close> and the cache directory \<open>store\<close>: the state it returns is the state of the
  world it ends in.
\<close>

definition new_NetworkFileSystem :: NetworkFileSystem where
  "new_NetworkFileSystem =
     \<lparr>scheme = ''https'', mountPoint = ''/network'', cache = Map.empty,
      fetcher = \<lparr>nextJobId = 1, posted = []\<rparr>\<rparr>"

definition initial_world ::
  "'py env \<Rightarrow> string \<Rightarrow> AgentState \<Rightarrow> options \<Rightarrow> 'py \<Rightarrow> snapshot_store \<Rightarrow> 'py world" where
  "initial_world e task initialState opts py0 store =
     (let st = initialState\<lparr>metadata := (metadata initialState)\<lparr>taskId := Some task\<rparr>\<rparr>
      in \<lparr>state = st,
          outputCaptureRef = outputCapture st,
          aliased = True,
          pyodide = restoreOutputFiles e st (mkdirOutput e py0),
          networkFS = restoreNetworkCache e st new_NetworkFileSystem,
          snapshots = (if clearCacheOnStart opts then clearCache task store else store),
          api_log = []\<rparr>)"

definition agenticLoop ::
  "nat \<Rightarrow> 'py env \<Rightarrow> string \<Rightarrow> AgentState \<Rightarrow> options \<Rightarrow> 'py \<Rightarrow> snapshot_store
     \<Rightarrow> outcome \<times> 'py world" where
  "agenticLoop fuel e task initialState opts py0 store =
     main_loop fuel e opts task (initial_world e task initialState opts py0 store)"

section \<open>Notions used by the statements\<close>

text \<open>A payload that makes \<^verbatim>\<open>fetch\<close> throw: an error status, or no payload at all.\<close>

fun failed :: "payload \<Rightarrow> bool" where
  "failed (PayloadOk d) = False"
| "failed (PayloadError m) = True"
| "failed NoPayload = True"

text \<open>
  The six objects \<open>clone\<close> puts at the end of the store, in the order it allocates them:
  the copies of the five containers and the new state object.
\<close>

definition cloned_objects :: "heap \<Rightarrow> ref \<Rightarrow> obj list" where
  "cloned_objects h this =
     (case deref h this of
        Some (StateObj m n c nc ofs d md) \<Rightarrow>
          [h ! m, h ! c, h ! nc, h ! ofs, h ! md,
           StateObj (length h) n (length h + 1) (length h + 2) (length h + 3) d (length h + 4)]
      | _ \<Rightarrow> [])"

text \<open>
  The cache directory holds, for the task, a snapshot that loads for each of the steps 1 to
  \<open>k\<close>, each carrying its own step count, and no file for a later step: the steps 1
  to \<open>k\<close> of the task are completed and saved, and no later one is.
\<close>

definition snapshots_upto :: "'py env \<Rightarrow> string \<Rightarrow> snapshot_store \<Rightarrow> nat \<Rightarrow> bool" where
  "snapshots_upto e task store k =
     ((\<forall>j. 1 \<le> j \<and> j \<le> k \<longrightarrow>
          (\<exists>cs. loadState (now_load e j) store task j = Some cs \<and> stepCount cs = j))
      \<and> (\<forall>j. k < j \<longrightarrow> store (task, j) = None))"




section \<open>Concrete hosts and inputs for the examples\<close>

text \<open>
  A host filesystem that is a flat table from path to content: \<^verbatim>\<open>stat\<close> and
  \<^verbatim>\<open>open\<close> fail with error 44 on a path that is not in the table.
\<close>

type_synonym flatfs = "(string \<times> bytes) list"

definition flat_stat :: "path_arg \<Rightarrow> flatfs \<Rightarrow> thrown + stat" where
  "flat_stat p fs =
     (case p of
        PathString q \<Rightarrow>
          (case map_of fs q of
             None \<Rightarrow> Inl (ErrnoError 44 ''FS error'')
           | Some b \<Rightarrow> Inr \<lparr>st_size = length b, st_mtime = 0\<rparr>)
      | PathNode q \<Rightarrow>
          (case map_of fs q of
             None \<Rightarrow> Inl (ErrnoError 44 ''FS error'')
           | Some b \<Rightarrow> Inr \<lparr>st_size = length b, st_mtime = 0\<rparr>)
      | PathOther \<Rightarrow> Inl (ErrnoError 44 ''FS error''))"

definition flat_host :: "flatfs host" where
  "flat_host =
     \<lparr>original_open = (\<lambda>p flags mode fs.
         (case flat_stat p fs of
            Inl err \<Rightarrow> Inl err
          | Inr st \<Rightarrow> Inr \<lparr>stream_path = p, stream_flags = flags, stream_mode = mode\<rparr>, fs)),
      original_stat = (\<lambda>p dontFollow fs. flat_stat p fs),
      original_lstat = Some flat_stat,
      mkdirTree = (\<lambda>d fs. (Inr (), fs)),
      writeFile = (\<lambda>p data fs. (Inr (), (p, data) # fs)),
      ERRNO_ENOENT = 44\<rparr>"

text \<open>A worker whose every fetch fails, and one whose every fetch gives three bytes.\<close>

definition unreachable :: worker where
  "unreachable jobId url = PayloadError ''fetch failed''"

definition serving :: worker where
  "serving jobId url = PayloadOk [1, 2, 3]"

text \<open>
  The interception adapter as constructed with its defaults on a host that has
  \<^verbatim>\<open>/etc/hosts\<close>, and the same adapter after \<^verbatim>\<open>/network/a\<close> was materialized.
\<close>

definition demo_fs :: "flatfs NetworkFileSystem_o" where
  "demo_fs =
     \<lparr>scheme_o = ''https'', mountPoint_o = ''/network'', cache_o = Map.empty,
      fetcher_o = \<lparr>nextJobId = 1, posted = []\<rparr>,
      hostFS = [(''/etc/hosts'', [1, 2, 3])]\<rparr>"

definition demo_meta :: meta where
  "demo_meta =
     \<lparr>meta_path = ''/network/a'', meta_url = ''https://a'', meta_bytes = 3, meta_timestamp = 0\<rparr>"

definition demo_fs_cached :: "flatfs NetworkFileSystem_o" where
  "demo_fs_cached =
     \<lparr>scheme_o = ''https'', mountPoint_o = ''/network'',
      cache_o = [''/network/a'' \<mapsto> demo_meta],
      fetcher_o = \<lparr>nextJobId = 2, posted = [(1, JStr ''https://a'')]\<rparr>,
      hostFS = [(''/network/a'', [1, 2, 3]), (''/etc/hosts'', [1, 2, 3])]\<rparr>"

text \<open>A virtual-node adapter that has \<^verbatim>\<open>icanhazip.com\<close> in its cache.\<close>

definition demo_nfs_cached :: NetworkFileSystem where
  "demo_nfs_cached = new_NetworkFileSystem\<lparr>cache := [''icanhazip.com'' \<mapsto> [1, 2, 3]]\<rparr>"

text \<open>A virtual-node adapter with the five bytes 1 to 5 cached under \<^verbatim>\<open>a\<close>.\<close>

definition demo_nfs_bytes :: NetworkFileSystem where
  "demo_nfs_bytes = new_NetworkFileSystem\<lparr>cache := [''a'' \<mapsto> [1, 2, 3, 4, 5]]\<rparr>"

text \<open>A store with one state that has one message, and the value of that state.\<close>

definition demo_message :: message where
  "demo_message = \<lparr>role = ''user'', content = Text ''What is my address?''\<rparr>"

definition demo_heap :: heap where
  "demo_heap =
     [MessageObj demo_message,
      ArrayObj [0],
      CaptureObj \<lparr>stdout = [], stderr = []\<rparr>,
      DictObj Map.empty,
      DictObj Map.empty,
      MetadataObj \<lparr>taskId = Some ''task-0'', createdAt = 0, lastModified = 0\<rparr>,
      StateObj 1 0 2 3 4 False 5]"

definition demo_state :: "nat \<Rightarrow> AgentState" where
  "demo_state n =
     \<lparr>messages = [demo_message],
      stepCount = n,
      outputCapture = \<lparr>stdout = [], stderr = []\<rparr>,
      networkCache = Map.empty, outputFiles = Map.empty, done_flag = False,
      metadata = \<lparr>taskId = Some ''task-0'', createdAt = 0, lastModified = 0\<rparr>\<rparr>"

text \<open>
  Collaborators for a run: the first request is answered with a tool call, every later
  one with the final answer; the interpreter prints one character and has no files.
\<close>

definition demo_env :: "unit env" where
  "demo_env =
     \<lparr>client_create = (\<lambda>i msgs.
         Inr (if i = 0
              then \<lparr>stop_reason = ''tool_use'',
                    response_content = [ToolUse ''t1'' ''execute_python'' ''print(1)'']\<rparr>
              else \<lparr>stop_reason = ''end_turn'', response_content = [TextBlock ''done'']\<rparr>)),
      runPython = (\<lambda>code py nfs.
         \<lparr>py_after = py, nfs_after = nfs, emitted_stdout = ''1'', emitted_stderr = [],
          raised = None\<rparr>),
      readOutput = (\<lambda>py. Some Map.empty),
      writeOutput = (\<lambda>files py. py),
      mkdirOutput = (\<lambda>py. py),
      toBase64 = (\<lambda>b. []),
      fromBase64 = (\<lambda>t. []),
      now_save = (\<lambda>n. 1000 + n),
      now_load = (\<lambda>n. (0, 0)),
      cacheSubdirExists = (\<lambda>name. False)\<rparr>"



definition demo_options :: options where
  "demo_options = \<lparr>maxSteps = 10, useCache = True, clearCacheOnStart = False\<rparr>"

text \<open>The cache directory after steps 1 and 2 of \<^verbatim>\<open>task-0\<close> were saved.\<close>

definition demo_store :: snapshot_store where
  "demo_store =
     [(''task-0'', 1) \<mapsto> Snapshot (serialize 1001 (demo_state 1)),
      (''task-0'', 2) \<mapsto> Snapshot (serialize 1002 (demo_state 2))]"

section \<open>Read-only enforcement\<close>


section \<open>The fetch bridge: one call, one job id, at most one request\<close>

lemma fetch_state:
  "snd (fetch w url f) =
     f\<lparr>nextJobId := nextJobId f + 1,
       posted := (if cloneable url then posted f @ [(nextJobId f, url)] else posted f)\<rparr>"
  by (simp add: fetch_def Let_def split: payload.splits)

lemma fetch_failed:
  assumes "failed (w (nextJobId f) url)"
  shows "\<exists>e. fetch w url f =
           (Inl (JsError e),
            f\<lparr>nextJobId := nextJobId f + 1,
              posted := (if cloneable url then posted f @ [(nextJobId f, url)] else posted f)\<rparr>)"
  using assms by (cases "w (nextJobId f) url") (simp_all add: fetch_def Let_def)

lemma fetch_ok:
  assumes "w (nextJobId f) (JStr url) = PayloadOk data"
  shows "fetch w (JStr url) f =
           (Inr data,
            f\<lparr>nextJobId := nextJobId f + 1, posted := posted f @ [(nextJobId f, JStr url)]\<rparr>)"
  using assms by (simp add: fetch_def Let_def)

section \<open>Reading a cached file\<close>

lemma take_drop_nth_interval:
  "take n (drop p xs) = map ((!) xs) [p ..< min (p + n) (length xs)]"
  by (rule nth_equalityI) auto

lemma typed_slice_nonneg:
  assumes "0 \<le> start" "start \<le> stop" "stop \<le> int (length xs)"
  shows "typed_slice xs start stop = map ((!) xs) [nat start ..< nat stop]"
proof -
  have "typed_slice xs start stop = take (nat (stop - start)) (drop (nat start) xs)"
    using assms by (simp add: typed_slice_def rel_index_def Let_def min_def max_def)
  also have "\<dots> = map ((!) xs) [nat start ..< min (nat start + nat (stop - start)) (length xs)]"
    by (rule take_drop_nth_interval)
  also have "min (nat start + nat (stop - start)) (length xs) = nat stop"
    using assms by (simp add: min_def) linarith
  finally show ?thesis .
qed

lemma typed_slice_beyond:
  assumes "int (length xs) \<le> start" "stop \<le> int (length xs)" "0 \<le> stop"
  shows "typed_slice xs start stop = []"
  using assms by (simp add: typed_slice_def rel_index_def Let_def min_def max_def)

text \<open>
  What \<open>read\<close> does for every position, length and offset that are not negative, when
  the buffer has room for \<open>len\<close> bytes at the offset: it copies the bytes of the cached
  content at the indices from \<open>position\<close> up to \<open>min (position + len) L\<close> into the
  buffer and returns \<open>min L (position + len) - position\<close>. Up to the end of the file
  that number is the count of the bytes copied, and it is 0 at the end of the file.
\<close>

lemma read_copies_slice:
  assumes "remote_path node = Some rp" and "cache nfs rp = Some bs"
    and "0 \<le> position" and "0 \<le> len" and "0 \<le> offset"
    and "offset + len \<le> int (length buffer)"
  shows "read nfs node buffer offset len position =
           Inr (min (int (length bs)) (position + len) - position,
                take (nat offset) buffer
                @ map ((!) bs) [nat position ..< nat (min (position + len) (int (length bs)))]
                @ drop (nat offset
                        + length [nat position ..< nat (min (position + len) (int (length bs)))])
                    buffer)
         \<and> (position \<le> int (length bs) \<longrightarrow>
              min (int (length bs)) (position + len) - position
              = int (length [nat position ..< nat (min (position + len) (int (length bs)))]))
         \<and> (position = int (length bs) \<longrightarrow>
              read nfs node buffer offset len position = Inr (0, buffer))"
proof -
  define stop where "stop = min (int (length bs)) (position + len)"
  define sl where
    "sl = map ((!) bs) [nat position ..< nat (min (position + len) (int (length bs)))]"
  have stop_le: "stop \<le> int (length bs)" and stop_nonneg: "0 \<le> stop"
    using assms by (simp_all add: stop_def)
  have slice: "typed_slice bs position stop = sl"
  proof (cases "position \<le> int (length bs)")
    case True
    then have "position \<le> stop" using assms by (simp add: stop_def)
    then show ?thesis
      using typed_slice_nonneg [OF assms(3) _ stop_le]
      by (simp add: sl_def stop_def min.commute)
  next
    case False
    then have "typed_slice bs position stop = []"
      using typed_slice_beyond [OF _ stop_le stop_nonneg] by simp
    moreover have "sl = []" using False assms by (simp add: sl_def)
    ultimately show ?thesis by simp
  qed
  have len_sl: "int (length sl) \<le> len"
    using assms by (simp add: sl_def)
  have fits: "\<not> (offset < 0 \<or> int (length sl) + offset > int (length buffer))"
    using assms len_sl by simp
  have rd: "read nfs node buffer offset len position =
          Inr (stop - position,
               take (nat offset) buffer @ sl @ drop (nat offset + length sl) buffer)"
    using assms(1,2) slice fits by (simp add: read_def typed_set_def stop_def Let_def)
  have cnt: "position \<le> int (length bs) \<Longrightarrow> stop - position = int (length sl)"
    using assms by (simp add: sl_def stop_def min_def)
  have at_end: "position = int (length bs) \<Longrightarrow>
                read nfs node buffer offset len position = Inr (0, buffer)"
  proof -
    assume e: "position = int (length bs)"
    then have "sl = []" by (simp add: sl_def)
    moreover have "stop - position = 0" using e assms by (simp add: stop_def)
    ultimately show ?thesis using rd by simp
  qed
  show ?thesis using rd cnt at_end by (simp add: sl_def stop_def)
qed

text \<open>
  C9. The claim: every read of a cached file of length L returns exactly the bytes at
  \<open>[position, min (position + length, L))\<close>, none at or past the end of the file, and
  is never an error. The code clamps the end of the slice to L but not its start, so a read
  that starts past the end of the file copies no byte and returns the negative number
  \<open>L - position\<close> as the count of bytes read: for the five cached bytes 1 to 5, a
  read of 3 bytes at position 10 returns -5, where a read of 3 bytes at position 5 returns 0
  and one at position 3 returns the 2 bytes left.
\<close>

theorem read_past_end_returns_negative_count:
  "read demo_nfs_bytes (file_node ''a'' ''a'') [0, 0, 0] 0 3 10 = Inr (- 5, [0, 0, 0])
   \<and> read demo_nfs_bytes (file_node ''a'' ''a'') [0, 0, 0] 0 3 5 = Inr (0, [0, 0, 0])
   \<and> read demo_nfs_bytes (file_node ''a'' ''a'') [0, 0, 0] 0 3 3 = Inr (2, [4, 5, 0])"
  by (simp add: read_def file_node_def demo_nfs_bytes_def new_NetworkFileSystem_def
        typed_slice_def rel_index_def typed_set_def Let_def)

section \<open>Lookups in the virtual-node adapter\<close>

lemma lookup_cached:
  assumes "cache nfs (lookup_remotePath parent name) = Some bs"
  shows "lookup w parent name nfs = (Inr (file_node name (lookup_remotePath parent name)), nfs)"
  using assms by (simp add: lookup_def Let_def)

lemma lookup_fetch_fails:
  assumes "cache nfs (lookup_remotePath parent name) = None"
    and "failed (w (nextJobId (fetcher nfs))
                   (JStr (pathToURL nfs (lookup_remotePath parent name))))"
  shows "fst (lookup w parent name nfs)
         = Inl (ErrnoError ENOENT (''No such file: '' @ lookup_remotePath parent name))"
proof -
  obtain e f' where
    "fetch w (JStr (pathToURL nfs (lookup_remotePath parent name))) (fetcher nfs)
     = (Inl (JsError e), f')"
    using fetch_failed [of w "fetcher nfs" "JStr (pathToURL nfs (lookup_remotePath parent name))"]
      assms(2)
    by blast
  then show ?thesis using assms(1) by (simp add: lookup_def Let_def ENOENT_def)
qed

lemma lookup_first_access:
  assumes "cache nfs (lookup_remotePath parent name) = None"
    and "w (nextJobId (fetcher nfs)) (JStr (pathToURL nfs (lookup_remotePath parent name)))
         = PayloadOk data"
  shows "lookup w parent name nfs =
           (Inr (file_node name (lookup_remotePath parent name)),
            nfs\<lparr>cache := (cache nfs)(lookup_remotePath parent name \<mapsto> data),
                fetcher := (fetcher nfs)\<lparr>nextJobId := nextJobId (fetcher nfs) + 1,
                     posted := posted (fetcher nfs)
                        @ [(nextJobId (fetcher nfs),
                            JStr (pathToURL nfs (lookup_remotePath parent name)))]\<rparr>\<rparr>)"
  using assms(1)
    fetch_ok [of w "fetcher nfs" "pathToURL nfs (lookup_remotePath parent name)" data] assms(2)
  by (simp add: lookup_def Let_def)

lemma lookups_cached:
  assumes "cache nfs (lookup_remotePath parent name) = Some bs"
  shows "((\<lambda>x. snd (lookup w parent name x)) ^^ n) nfs = nfs"
  by (induction n) (simp_all add: lookup_cached [OF assms])

lemma lookups_once:
  assumes "cache nfs (lookup_remotePath parent name) = None"
    and "w (nextJobId (fetcher nfs)) (JStr (pathToURL nfs (lookup_remotePath parent name)))
         = PayloadOk data"
    and "1 \<le> n"
  shows "((\<lambda>x. snd (lookup w parent name x)) ^^ n) nfs =
            nfs\<lparr>cache := (cache nfs)(lookup_remotePath parent name \<mapsto> data),
                fetcher := (fetcher nfs)\<lparr>nextJobId := nextJobId (fetcher nfs) + 1,
                     posted := posted (fetcher nfs)
                        @ [(nextJobId (fetcher nfs),
                            JStr (pathToURL nfs (lookup_remotePath parent name)))]\<rparr>\<rparr>"
proof -
  obtain k where n: "n = Suc k" using assms(3) by (cases n) simp_all
  let ?nfs1 = "nfs\<lparr>cache := (cache nfs)(lookup_remotePath parent name \<mapsto> data),
                fetcher := (fetcher nfs)\<lparr>nextJobId := nextJobId (fetcher nfs) + 1,
                     posted := posted (fetcher nfs)
                        @ [(nextJobId (fetcher nfs),
                            JStr (pathToURL nfs (lookup_remotePath parent name)))]\<rparr>\<rparr>"
  have first: "snd (lookup w parent name nfs) = ?nfs1"
    using lookup_first_access [of nfs parent name w data, OF assms(1,2)] by simp
  have "cache ?nfs1 (lookup_remotePath parent name) = Some data" by simp
  then have rest: "((\<lambda>x. snd (lookup w parent name x)) ^^ k) ?nfs1 = ?nfs1"
    by (rule lookups_cached)
  show ?thesis unfolding n funpow_Suc_right o_apply first by (rule rest)
qed

section \<open>Materialization in the call-interception adapter\<close>

lemma startsWith_append: "startsWith (p @ r) p"
  by (simp add: startsWith_def)

lemma normalizeToMount_idem:
  assumes "normalizeToMount s p = Some q"
  shows "normalizeToMount s q = Some q"
  using assms
  by (auto simp: normalizeToMount_def startsWith_append split: if_splits)

lemma normalizeToMount_nonempty:
  assumes "normalizeToMount s p = Some q"
  shows "q \<noteq> []"
  using assms by (auto simp: normalizeToMount_def split: if_splits)

lemma pathToURL_o_remote:
  assumes "extractRemotePath s fsPath \<noteq> []"
  shows "pathToURL_o s fsPath = Inr (scheme_o s @ ''://'' @ extractRemotePath s fsPath)"
  using assms by (simp add: pathToURL_o_def Let_def)

lemma ensureFileSync_cached:
  assumes "normalizeToMount s path = Some fsPath"
    and "isWithinMount s fsPath" and "extractRemotePath s fsPath \<noteq> []"
    and "cache_o s fsPath = Some m"
    and "original_stat h (PathString fsPath) None (hostFS s) = Inr st"
  shows "ensureFileSync h w path s = (Inr (Some m), s)"
  using assms by (simp add: ensureFileSync_def fileExists_def)

lemma ensureFileSync_cached_funpow:
  assumes "normalizeToMount s path = Some fsPath"
    and "isWithinMount s fsPath" and "extractRemotePath s fsPath \<noteq> []"
    and "cache_o s fsPath = Some m"
    and "original_stat h (PathString fsPath) None (hostFS s) = Inr st"
  shows "((\<lambda>x. snd (ensureFileSync h w path x)) ^^ n) s = s"
  by (induction n) (simp_all add: ensureFileSync_cached [OF assms])

lemma ensureFileSync_fetch_fails:
  assumes "normalizeToMount s path = Some fsPath"
    and "isWithinMount s fsPath" and "extractRemotePath s fsPath \<noteq> []"
    and "cache_o s fsPath = None \<or> fileExists h s fsPath = Inr False"
    and "failed (w (nextJobId (fetcher_o s))
                   (JStr (scheme_o s @ ''://'' @ extractRemotePath s fsPath)))"
  shows "\<exists>msg. ensureFileSync h w path s =
           (Inl (ErrnoError (ERRNO_ENOENT h) msg),
            s\<lparr>fetcher_o := (fetcher_o s)\<lparr>nextJobId := nextJobId (fetcher_o s) + 1,
                 posted := posted (fetcher_o s)
                   @ [(nextJobId (fetcher_o s),
                       JStr (scheme_o s @ ''://'' @ extractRemotePath s fsPath))]\<rparr>\<rparr>)"
proof -
  obtain e where f:
    "fetch w (JStr (scheme_o s @ ''://'' @ extractRemotePath s fsPath)) (fetcher_o s) =
       (Inl (JsError e),
        (fetcher_o s)\<lparr>nextJobId := nextJobId (fetcher_o s) + 1,
             posted := posted (fetcher_o s)
               @ [(nextJobId (fetcher_o s),
                   JStr (scheme_o s @ ''://'' @ extractRemotePath s fsPath))]\<rparr>)"
    using fetch_failed [of w "fetcher_o s"
        "JStr (scheme_o s @ ''://'' @ extractRemotePath s fsPath)"] assms(5)
    by auto
  show ?thesis
    using assms(1,2,3,4) f
    by (cases "cache_o s fsPath") (simp_all add: ensureFileSync_def pathToURL_o_remote)
qed

lemma materialize_if_string:
  assumes "normalizeToMount s path = Some fsPath"
  shows "materialize_if True h w (normalizeToMount s path) s = ensureFileSync h w fsPath s"
  using assms normalizeToMount_nonempty [OF assms] by (simp add: materialize_if_def)

lemma patchedStat_cached:
  assumes "normalizeToMount s path = Some fsPath"
    and "isWithinMount s fsPath" and "extractRemotePath s fsPath \<noteq> []"
    and "cache_o s fsPath = Some m"
    and "original_stat h (PathString fsPath) None (hostFS s) = Inr st"
  shows "patchedStat h w (PathString path) df s
         = (original_stat h (PathString path) df (hostFS s), s)"
  using ensureFileSync_cached [OF normalizeToMount_idem [OF assms(1)] assms(2,3,4,5)]
  by (simp add: patchedStat_def materialize_if_string [OF assms(1)])

lemma patchedStat_cached_funpow:
  assumes "normalizeToMount s path = Some fsPath"
    and "isWithinMount s fsPath" and "extractRemotePath s fsPath \<noteq> []"
    and "cache_o s fsPath = Some m"
    and "original_stat h (PathString fsPath) None (hostFS s) = Inr st"
  shows "((\<lambda>x. snd (patchedStat h w (PathString path) df x)) ^^ n) s = s"
  by (induction n) (simp_all add: patchedStat_cached [OF assms])

lemma patchedOpen_cached:
  assumes "normalizeToMount s path = Some fsPath"
    and "isWithinMount s fsPath" and "extractRemotePath s fsPath \<noteq> []"
    and "cache_o s fsPath = Some m"
    and "original_stat h (PathString fsPath) None (hostFS s) = Inr st"
  shows "fetcher_o (snd (patchedOpen h w (PathString path) flags mode s)) = fetcher_o s
         \<and> cache_o (snd (patchedOpen h w (PathString path) flags mode s)) = cache_o s"
proof (cases "shouldFetchForOpen flags")
  case True
  then have "materialize_if (shouldFetchForOpen flags) h w (normalizeToMount s path) s
             = (Inr (Some m), s)"
    using materialize_if_string [where h = h and w = w, OF assms(1)]
      ensureFileSync_cached [where w = w, OF normalizeToMount_idem [OF assms(1)] assms(2,3,4,5)]
    by simp
  then show ?thesis by (simp add: patchedOpen_def split: prod.splits)
next
  case False
  then have "materialize_if (shouldFetchForOpen flags) h w (normalizeToMount s path) s
             = (Inr None, s)"
    by (simp add: materialize_if_def split: option.splits)
  then show ?thesis by (simp add: patchedOpen_def split: prod.splits)
qed

lemma patched_fetch_fails:
  assumes "normalizeToMount s path = Some fsPath"
    and "isWithinMount s fsPath" and "extractRemotePath s fsPath \<noteq> []"
    and "cache_o s fsPath = None \<or> fileExists h s fsPath = Inr False"
    and "failed (w (nextJobId (fetcher_o s))
                   (JStr (scheme_o s @ ''://'' @ extractRemotePath s fsPath)))"
  shows "\<exists>msg. fst (ensureFileSync h w path s) = Inl (ErrnoError (ERRNO_ENOENT h) msg)
           \<and> fst (patchedStat h w (PathString path) df s) = Inl (ErrnoError (ERRNO_ENOENT h) msg)
           \<and> (shouldFetchForOpen flags \<longrightarrow>
                fst (patchedOpen h w (PathString path) flags mode s)
                = Inl (ErrnoError (ERRNO_ENOENT h) msg))"
proof -
  obtain msg s' where a: "ensureFileSync h w path s = (Inl (ErrnoError (ERRNO_ENOENT h) msg), s')"
    using ensureFileSync_fetch_fails [where w = w and h = h, OF assms] by blast
  obtain msg2 s2 where b:
    "ensureFileSync h w fsPath s = (Inl (ErrnoError (ERRNO_ENOENT h) msg2), s2)"
    using ensureFileSync_fetch_fails
        [where w = w and h = h, OF normalizeToMount_idem [OF assms(1)] assms(2,3,4,5)]
    by blast
  have "msg2 = msg"
    using a b assms(1) normalizeToMount_idem [OF assms(1)]
    by (simp add: ensureFileSync_def)
  then show ?thesis
    using a b materialize_if_string [where h = h and w = w, OF assms(1)]
    by (auto simp: patchedStat_def patchedOpen_def materialize_if_def
             normalizeToMount_nonempty [OF assms(1)] assms(1))
qed

lemma ensureParentDirectories_frame:
  "snd (ensureParentDirectories h p s)
   = s\<lparr>hostFS := hostFS (snd (ensureParentDirectories h p s))\<rparr>"
  by (simp add: ensureParentDirectories_def Let_def split: sum.splits prod.splits)

lemma ensureFileSync_first_access:
  assumes "normalizeToMount s path = Some fsPath"
    and "isWithinMount s fsPath" and "extractRemotePath s fsPath \<noteq> []"
    and "cache_o s fsPath = None"
    and "ensureFileSync h w path s = (Inr (Some m), s1)"
  shows "cache_o s1 fsPath = Some m \<and> scheme_o s1 = scheme_o s
         \<and> mountPoint_o s1 = mountPoint_o s
         \<and> fetcher_o s1 = (fetcher_o s)\<lparr>nextJobId := nextJobId (fetcher_o s) + 1,
                 posted := posted (fetcher_o s)
                   @ [(nextJobId (fetcher_o s),
                       JStr (scheme_o s @ ''://'' @ extractRemotePath s fsPath))]\<rparr>"
proof -
  let ?url = "scheme_o s @ ''://'' @ extractRemotePath s fsPath"
  let ?f = "(fetcher_o s)\<lparr>nextJobId := nextJobId (fetcher_o s) + 1,
                 posted := posted (fetcher_o s) @ [(nextJobId (fetcher_o s), JStr ?url)]\<rparr>"
  obtain r where fr: "fetch w (JStr ?url) (fetcher_o s) = (r, ?f)"
    using fetch_state [of w "JStr ?url" "fetcher_o s"]
    by (cases "fetch w (JStr ?url) (fetcher_o s)") simp
  obtain fs where pd:
    "snd (ensureParentDirectories h fsPath (s\<lparr>fetcher_o := ?f\<rparr>))
     = s\<lparr>fetcher_o := ?f, hostFS := fs\<rparr>"
    using ensureParentDirectories_frame [of h fsPath "s\<lparr>fetcher_o := ?f\<rparr>"] by metis
  show ?thesis
    using assms fr pd
    by (auto simp: ensureFileSync_def pathToURL_o_remote Let_def
             split: sum.splits prod.splits)
qed

lemma same_mount:
  assumes "mountPoint_o s1 = mountPoint_o s"
  shows "normalizeToMount s1 p = normalizeToMount s p"
    and "isWithinMount s1 p = isWithinMount s p"
    and "extractRemotePath s1 p = extractRemotePath s p"
  using assms
  by (simp_all add: normalizeToMount_def isWithinMount_def extractRemotePath_def)

lemma ensureFileSync_then_cached:
  assumes "normalizeToMount s path = Some fsPath"
    and "isWithinMount s fsPath" and "extractRemotePath s fsPath \<noteq> []"
    and "cache_o s fsPath = None"
    and "ensureFileSync h w path s = (Inr (Some m), s1)"
    and "original_stat h (PathString fsPath) None (hostFS s1) = Inr st"
  shows "posted (fetcher_o s1)
           = posted (fetcher_o s)
             @ [(nextJobId (fetcher_o s), JStr (scheme_o s @ ''://'' @ extractRemotePath s fsPath))]
         \<and> ((\<lambda>x. snd (ensureFileSync h w path x)) ^^ n) s1 = s1
         \<and> ensureFileSync h w path s1 = (Inr (Some m), s1)"
proof -
  note fa = ensureFileSync_first_access [OF assms(1-5)]
  have mp: "mountPoint_o s1 = mountPoint_o s" using fa by simp
  have n1: "normalizeToMount s1 path = Some fsPath"
    and w1: "isWithinMount s1 fsPath" and r1: "extractRemotePath s1 fsPath \<noteq> []"
    using assms(1,2,3) by (simp_all add: same_mount [OF mp])
  have c1: "cache_o s1 fsPath = Some m" using fa by simp
  show ?thesis
    using fa ensureFileSync_cached_funpow [where w = w and n = n, OF n1 w1 r1 c1 assms(6)]
      ensureFileSync_cached [where w = w, OF n1 w1 r1 c1 assms(6)]
    by simp
qed

section \<open>A cached path is not fetched again\<close>

text \<open>
  C3. A path whose key is in the cache of the adapter is not fetched again. In the
  virtual-node adapter a lookup of a cached remote path returns the node and leaves the
  adapter, cache and fetch bridge included, as it was, however often it is repeated; and
  \<open>n \<ge> 1\<close> lookups of an uncached path that the worker serves post exactly one
  request and leave its bytes in the cache. In the call-interception adapter, for a path
  that is cached and whose materialized file the host still has, \<open>ensureFileSync\<close>
  returns the cached entry and changes nothing, the patched \<open>stat\<close> is the original
  \<open>stat\<close> with the adapter unchanged, however often repeated, and the patched
  \<open>open\<close> leaves the fetch bridge and the cache as they were; and after a first access
  that materialized an uncached path with one request, any number of further accesses adds
  none, as long as the file is still there.
\<close>

theorem cached_path_is_fetched_once:
  "(cache nfs (lookup_remotePath parent name) = Some bs \<longrightarrow>
      lookup w parent name nfs = (Inr (file_node name (lookup_remotePath parent name)), nfs)
      \<and> ((\<lambda>x. snd (lookup w parent name x)) ^^ n) nfs = nfs)
   \<and> (cache fresh (lookup_remotePath parent name) = None
       \<and> w (nextJobId (fetcher fresh)) (JStr (pathToURL fresh (lookup_remotePath parent name)))
         = PayloadOk data
       \<and> 1 \<le> n \<longrightarrow>
      ((\<lambda>x. snd (lookup w parent name x)) ^^ n) fresh =
         fresh\<lparr>cache := (cache fresh)(lookup_remotePath parent name \<mapsto> data),
              fetcher := (fetcher fresh)\<lparr>nextJobId := nextJobId (fetcher fresh) + 1,
                  posted := posted (fetcher fresh)
                     @ [(nextJobId (fetcher fresh),
                         JStr (pathToURL fresh (lookup_remotePath parent name)))]\<rparr>\<rparr>)
   \<and> (normalizeToMount s path = Some fsPath \<and> isWithinMount s fsPath
       \<and> extractRemotePath s fsPath \<noteq> [] \<and> cache_o s fsPath = Some m
       \<and> original_stat h (PathString fsPath) None (hostFS s) = Inr st \<longrightarrow>
      ensureFileSync h w path s = (Inr (Some m), s)
      \<and> patchedStat h w (PathString path) df s
        = (original_stat h (PathString path) df (hostFS s), s)
      \<and> ((\<lambda>x. snd (patchedStat h w (PathString path) df x)) ^^ n) s = s
      \<and> fetcher_o (snd (patchedOpen h w (PathString path) flags mode s)) = fetcher_o s
      \<and> cache_o (snd (patchedOpen h w (PathString path) flags mode s)) = cache_o s)
   \<and> (normalizeToMount before path = Some fsPath \<and> isWithinMount before fsPath
       \<and> extractRemotePath before fsPath \<noteq> [] \<and> cache_o before fsPath = None
       \<and> ensureFileSync h w path before = (Inr (Some m), s)
       \<and> original_stat h (PathString fsPath) None (hostFS s) = Inr st \<longrightarrow>
      posted (fetcher_o s)
        = posted (fetcher_o before)
          @ [(nextJobId (fetcher_o before),
              JStr (scheme_o before @ ''://'' @ extractRemotePath before fsPath))]
      \<and> ((\<lambda>x. snd (ensureFileSync h w path x)) ^^ n) s = s
      \<and> ensureFileSync h w path s = (Inr (Some m), s))"
proof (intro conjI impI)
  assume "cache nfs (lookup_remotePath parent name) = Some bs"
  then show "lookup w parent name nfs
             = (Inr (file_node name (lookup_remotePath parent name)), nfs)"
    and "((\<lambda>x. snd (lookup w parent name x)) ^^ n) nfs = nfs"
    by (rule lookup_cached, rule lookups_cached)
next
  assume a: "cache fresh (lookup_remotePath parent name) = None
       \<and> w (nextJobId (fetcher fresh)) (JStr (pathToURL fresh (lookup_remotePath parent name)))
         = PayloadOk data
       \<and> 1 \<le> n"
  show "((\<lambda>x. snd (lookup w parent name x)) ^^ n) fresh =
         fresh\<lparr>cache := (cache fresh)(lookup_remotePath parent name \<mapsto> data),
              fetcher := (fetcher fresh)\<lparr>nextJobId := nextJobId (fetcher fresh) + 1,
                  posted := posted (fetcher fresh)
                     @ [(nextJobId (fetcher fresh),
                         JStr (pathToURL fresh (lookup_remotePath parent name)))]\<rparr>\<rparr>"
    using a
    by (intro lookups_once [where w = w and nfs = fresh and parent = parent and name = name
          and data = data and n = n]) simp_all
next
  assume a: "normalizeToMount s path = Some fsPath \<and> isWithinMount s fsPath
       \<and> extractRemotePath s fsPath \<noteq> [] \<and> cache_o s fsPath = Some m
       \<and> original_stat h (PathString fsPath) None (hostFS s) = Inr st"
  then have a1: "normalizeToMount s path = Some fsPath" and a2: "isWithinMount s fsPath"
    and a3: "extractRemotePath s fsPath \<noteq> []" and a4: "cache_o s fsPath = Some m"
    and a5: "original_stat h (PathString fsPath) None (hostFS s) = Inr st"
    by simp_all
  show "ensureFileSync h w path s = (Inr (Some m), s)"
    by (rule ensureFileSync_cached [OF a1 a2 a3 a4 a5])
  show "patchedStat h w (PathString path) df s
        = (original_stat h (PathString path) df (hostFS s), s)"
    by (rule patchedStat_cached [OF a1 a2 a3 a4 a5])
  show "((\<lambda>x. snd (patchedStat h w (PathString path) df x)) ^^ n) s = s"
    by (rule patchedStat_cached_funpow [OF a1 a2 a3 a4 a5])
  show "fetcher_o (snd (patchedOpen h w (PathString path) flags mode s)) = fetcher_o s"
    and "cache_o (snd (patchedOpen h w (PathString path) flags mode s)) = cache_o s"
    using patchedOpen_cached [where w = w and flags = flags and mode = mode,
        OF a1 a2 a3 a4 a5]
    by simp_all
next
  assume a: "normalizeToMount before path = Some fsPath \<and> isWithinMount before fsPath
       \<and> extractRemotePath before fsPath \<noteq> [] \<and> cache_o before fsPath = None
       \<and> ensureFileSync h w path before = (Inr (Some m), s)
       \<and> original_stat h (PathString fsPath) None (hostFS s) = Inr st"
  then have a1: "normalizeToMount before path = Some fsPath" and a2: "isWithinMount before fsPath"
    and a3: "extractRemotePath before fsPath \<noteq> []" and a4: "cache_o before fsPath = None"
    and a5: "ensureFileSync h w path before = (Inr (Some m), s)"
    and a6: "original_stat h (PathString fsPath) None (hostFS s) = Inr st"
    by simp_all
  note t = ensureFileSync_then_cached [where n = n, OF a1 a2 a3 a4 a5 a6]
  show "posted (fetcher_o s)
        = posted (fetcher_o before)
          @ [(nextJobId (fetcher_o before),
              JStr (scheme_o before @ ''://'' @ extractRemotePath before fsPath))]"
    and "((\<lambda>x. snd (ensureFileSync h w path x)) ^^ n) s = s"
    and "ensureFileSync h w path s = (Inr (Some m), s)"
    using t by simp_all
qed

lemma demo_first_access:
  "ensureFileSync flat_host serving ''/network/a'' demo_fs
   = (Inr (Some demo_meta), demo_fs_cached)"
  by (simp add: ensureFileSync_def normalizeToMount_def startsWith_def isWithinMount_def
        extractRemotePath_def strip_slashes_def pathToURL_o_def fetch_def serving_def
        ensureParentDirectories_def dirname_of_def flat_host_def flat_stat_def
        demo_fs_def demo_fs_cached_def demo_meta_def numeral_3_eq_3 Let_def)

lemma demo_under_mount:
  "normalizeToMount demo_fs ''/network/a'' = Some ''/network/a''"
  "isWithinMount demo_fs ''/network/a''"
  "extractRemotePath demo_fs ''/network/a'' = ''a''"
  "normalizeToMount demo_fs_cached ''/network/a'' = Some ''/network/a''"
  "isWithinMount demo_fs_cached ''/network/a''"
  "extractRemotePath demo_fs_cached ''/network/a'' = ''a''"
  by (simp_all add: normalizeToMount_def startsWith_def isWithinMount_def
        extractRemotePath_def strip_slashes_def demo_fs_def demo_fs_cached_def Let_def)

theorem cached_path_is_fetched_once_witness:
  "(lookup serving (Some root_node) ''icanhazip.com'' demo_nfs_cached
      = (Inr (file_node ''icanhazip.com'' ''icanhazip.com''), demo_nfs_cached)
    \<and> ((\<lambda>x. snd (lookup serving (Some root_node) ''icanhazip.com'' x)) ^^ 3) demo_nfs_cached
      = demo_nfs_cached)
   \<and> ((\<lambda>x. snd (lookup serving (Some root_node) ''icanhazip.com'' x)) ^^ 3)
        new_NetworkFileSystem
      = new_NetworkFileSystem
          \<lparr>cache := [''icanhazip.com'' \<mapsto> [1, 2, 3]],
           fetcher := \<lparr>nextJobId = 2, posted = [(1, JStr ''https://icanhazip.com'')]\<rparr>\<rparr>
   \<and> (ensureFileSync flat_host serving ''/network/a'' demo_fs_cached
        = (Inr (Some demo_meta), demo_fs_cached)
      \<and> patchedStat flat_host serving (PathString ''/network/a'') None demo_fs_cached
        = (Inr \<lparr>st_size = 3, st_mtime = 0\<rparr>, demo_fs_cached)
      \<and> ((\<lambda>x. snd (patchedStat flat_host serving (PathString ''/network/a'') None x)) ^^ 3)
           demo_fs_cached
        = demo_fs_cached
      \<and> fetcher_o (snd (patchedOpen flat_host serving (PathString ''/network/a'')
                           (FlagString ''r'') None demo_fs_cached))
        = \<lparr>nextJobId = 2, posted = [(1, JStr ''https://a'')]\<rparr>)
   \<and> posted (fetcher_o demo_fs_cached) = [(1, JStr ''https://a'')]
   \<and> ((\<lambda>x. snd (ensureFileSync flat_host serving ''/network/a'' x)) ^^ 3) demo_fs_cached
      = demo_fs_cached"
proof -
  have c1: "cache demo_nfs_cached (lookup_remotePath (Some root_node) ''icanhazip.com'')
            = Some [1, 2, 3]"
    and rp: "lookup_remotePath (Some root_node) ''icanhazip.com'' = ''icanhazip.com''"
    by (simp_all add: demo_nfs_cached_def lookup_remotePath_def root_node_def
          new_NetworkFileSystem_def)
  have c2: "cache new_NetworkFileSystem (lookup_remotePath (Some root_node) ''icanhazip.com'')
            = None
       \<and> serving (nextJobId (fetcher new_NetworkFileSystem))
            (JStr (pathToURL new_NetworkFileSystem
                     (lookup_remotePath (Some root_node) ''icanhazip.com'')))
         = PayloadOk [1, 2, 3]
       \<and> 1 \<le> (3::nat)"
    by (simp add: new_NetworkFileSystem_def serving_def)
  have c3: "normalizeToMount demo_fs_cached ''/network/a'' = Some ''/network/a''
       \<and> isWithinMount demo_fs_cached ''/network/a''
       \<and> extractRemotePath demo_fs_cached ''/network/a'' \<noteq> []
       \<and> cache_o demo_fs_cached ''/network/a'' = Some demo_meta
       \<and> original_stat flat_host (PathString ''/network/a'') None (hostFS demo_fs_cached)
         = Inr \<lparr>st_size = 3, st_mtime = 0\<rparr>"
    by (simp add: demo_under_mount) (simp add: demo_fs_cached_def flat_host_def flat_stat_def)
  have c4: "normalizeToMount demo_fs ''/network/a'' = Some ''/network/a''
       \<and> isWithinMount demo_fs ''/network/a''
       \<and> extractRemotePath demo_fs ''/network/a'' \<noteq> []
       \<and> cache_o demo_fs ''/network/a'' = None
       \<and> ensureFileSync flat_host serving ''/network/a'' demo_fs
         = (Inr (Some demo_meta), demo_fs_cached)
       \<and> original_stat flat_host (PathString ''/network/a'') None (hostFS demo_fs_cached)
         = Inr \<lparr>st_size = 3, st_mtime = 0\<rparr>"
    by (simp add: demo_under_mount demo_first_access)
       (simp add: demo_fs_def demo_fs_cached_def flat_host_def flat_stat_def)
  note t = cached_path_is_fetched_once
    [where nfs = demo_nfs_cached and parent = "Some root_node" and name = "''icanhazip.com''"
       and bs = "[1, 2, 3]" and w = serving and n = 3 and fresh = new_NetworkFileSystem
       and data = "[1, 2, 3]" and s = demo_fs_cached and path = "''/network/a''"
       and fsPath = "''/network/a''" and m = demo_meta and h = flat_host
       and st = "\<lparr>st_size = 3, st_mtime = 0\<rparr>" and df = None
       and flags = "FlagString ''r''" and mode = None and before = demo_fs]
  have t1: "lookup serving (Some root_node) ''icanhazip.com'' demo_nfs_cached
      = (Inr (file_node ''icanhazip.com'' ''icanhazip.com''), demo_nfs_cached)
    \<and> ((\<lambda>x. snd (lookup serving (Some root_node) ''icanhazip.com'' x)) ^^ 3) demo_nfs_cached
      = demo_nfs_cached"
    using t c1 by (simp add: rp)
  have t2: "((\<lambda>x. snd (lookup serving (Some root_node) ''icanhazip.com'' x)) ^^ 3)
        new_NetworkFileSystem
      = new_NetworkFileSystem
          \<lparr>cache := [''icanhazip.com'' \<mapsto> [1, 2, 3]],
           fetcher := \<lparr>nextJobId = 2, posted = [(1, JStr ''https://icanhazip.com'')]\<rparr>\<rparr>"
    using conjunct1 [OF conjunct2 [OF t]] c2
    by (simp add: rp) (simp add: new_NetworkFileSystem_def pathToURL_def)
  have f: "fetcher_o demo_fs_cached = \<lparr>nextJobId = 2, posted = [(1, JStr ''https://a'')]\<rparr>"
    by (simp add: demo_fs_cached_def)
  have t3: "ensureFileSync flat_host serving ''/network/a'' demo_fs_cached
        = (Inr (Some demo_meta), demo_fs_cached)
      \<and> patchedStat flat_host serving (PathString ''/network/a'') None demo_fs_cached
        = (Inr \<lparr>st_size = 3, st_mtime = 0\<rparr>, demo_fs_cached)
      \<and> ((\<lambda>x. snd (patchedStat flat_host serving (PathString ''/network/a'') None x)) ^^ 3)
           demo_fs_cached
        = demo_fs_cached
      \<and> fetcher_o (snd (patchedOpen flat_host serving (PathString ''/network/a'')
                           (FlagString ''r'') None demo_fs_cached))
        = \<lparr>nextJobId = 2, posted = [(1, JStr ''https://a'')]\<rparr>"
    using conjunct1 [OF conjunct2 [OF conjunct2 [OF t]]] c3 by (simp add: f)
  have t4: "posted (fetcher_o demo_fs_cached) = [(1, JStr ''https://a'')]
   \<and> ((\<lambda>x. snd (ensureFileSync flat_host serving ''/network/a'' x)) ^^ 3) demo_fs_cached
      = demo_fs_cached"
    using conjunct2 [OF conjunct2 [OF conjunct2 [OF t]]] c4 by (simp add: f)
  show ?thesis using t1 t2 t3 t4 by blast
qed

section \<open>A failed fetch is a missing file\<close>

text \<open>
  C5. When the fetch that an access to a virtual path triggers fails (the worker reports an
  error status or a transport error, or nothing), the access fails with the filesystem's
  missing-entry error and not with the error of the bridge: the lookup of the virtual-node
  adapter throws \<open>ErrnoError 44\<close> (ENOENT) with the message \<open>No such file\<close>, and in
  the call-interception adapter \<open>ensureFileSync\<close>, the patched \<open>stat\<close> and the
  patched \<open>open\<close> for reading throw the \<open>ErrnoError\<close> of the host's ENOENT.
\<close>

theorem failed_fetch_is_not_found:
  "(cache nfs (lookup_remotePath parent name) = None
    \<and> failed (w (nextJobId (fetcher nfs))
                (JStr (pathToURL nfs (lookup_remotePath parent name)))) \<longrightarrow>
      fst (lookup w parent name nfs)
      = Inl (ErrnoError ENOENT (''No such file: '' @ lookup_remotePath parent name)))
   \<and> (normalizeToMount s path = Some fsPath \<and> isWithinMount s fsPath
       \<and> extractRemotePath s fsPath \<noteq> []
       \<and> (cache_o s fsPath = None \<or> fileExists h s fsPath = Inr False)
       \<and> failed (w (nextJobId (fetcher_o s))
                   (JStr (scheme_o s @ ''://'' @ extractRemotePath s fsPath))) \<longrightarrow>
      (\<exists>msg. fst (ensureFileSync h w path s) = Inl (ErrnoError (ERRNO_ENOENT h) msg)
           \<and> fst (patchedStat h w (PathString path) df s)
             = Inl (ErrnoError (ERRNO_ENOENT h) msg)
           \<and> (shouldFetchForOpen flags \<longrightarrow>
                fst (patchedOpen h w (PathString path) flags mode s)
                = Inl (ErrnoError (ERRNO_ENOENT h) msg))))"
proof (intro conjI impI)
  assume "cache nfs (lookup_remotePath parent name) = None
    \<and> failed (w (nextJobId (fetcher nfs))
                (JStr (pathToURL nfs (lookup_remotePath parent name))))"
  then show "fst (lookup w parent name nfs)
      = Inl (ErrnoError ENOENT (''No such file: '' @ lookup_remotePath parent name))"
    by (intro lookup_fetch_fails [where w = w]) simp_all
next
  assume a: "normalizeToMount s path = Some fsPath \<and> isWithinMount s fsPath
       \<and> extractRemotePath s fsPath \<noteq> []
       \<and> (cache_o s fsPath = None \<or> fileExists h s fsPath = Inr False)
       \<and> failed (w (nextJobId (fetcher_o s))
                   (JStr (scheme_o s @ ''://'' @ extractRemotePath s fsPath)))"
  then have a1: "normalizeToMount s path = Some fsPath" and a2: "isWithinMount s fsPath"
    and a3: "extractRemotePath s fsPath \<noteq> []"
    and a4: "cache_o s fsPath = None \<or> fileExists h s fsPath = Inr False"
    and a5: "failed (w (nextJobId (fetcher_o s))
                   (JStr (scheme_o s @ ''://'' @ extractRemotePath s fsPath)))"
    by simp_all
  show "\<exists>msg. fst (ensureFileSync h w path s) = Inl (ErrnoError (ERRNO_ENOENT h) msg)
           \<and> fst (patchedStat h w (PathString path) df s)
             = Inl (ErrnoError (ERRNO_ENOENT h) msg)
           \<and> (shouldFetchForOpen flags \<longrightarrow>
                fst (patchedOpen h w (PathString path) flags mode s)
                = Inl (ErrnoError (ERRNO_ENOENT h) msg))"
    by (rule patched_fetch_fails [where w = w and h = h, OF a1 a2 a3 a4 a5])
qed

theorem failed_fetch_is_not_found_witness:
  "fst (lookup unreachable (Some root_node) ''nowhere.invalid'' new_NetworkFileSystem)
     = Inl (ErrnoError ENOENT ''No such file: nowhere.invalid'')
   \<and> (\<exists>msg. fst (ensureFileSync flat_host unreachable ''/network/a'' demo_fs)
               = Inl (ErrnoError 44 msg)
           \<and> fst (patchedStat flat_host unreachable (PathString ''/network/a'') None demo_fs)
               = Inl (ErrnoError 44 msg)
           \<and> fst (patchedOpen flat_host unreachable (PathString ''/network/a'')
                     (FlagString ''r'') None demo_fs)
               = Inl (ErrnoError 44 msg))"
proof -
  have rp: "lookup_remotePath (Some root_node) ''nowhere.invalid'' = ''nowhere.invalid''"
    by (simp add: lookup_remotePath_def root_node_def)
  have c1: "cache new_NetworkFileSystem (lookup_remotePath (Some root_node) ''nowhere.invalid'')
            = None
    \<and> failed (unreachable (nextJobId (fetcher new_NetworkFileSystem))
                (JStr (pathToURL new_NetworkFileSystem
                         (lookup_remotePath (Some root_node) ''nowhere.invalid''))))"
    by (simp add: new_NetworkFileSystem_def unreachable_def)
  have c2: "normalizeToMount demo_fs ''/network/a'' = Some ''/network/a''
       \<and> isWithinMount demo_fs ''/network/a''
       \<and> extractRemotePath demo_fs ''/network/a'' \<noteq> []
       \<and> (cache_o demo_fs ''/network/a'' = None
          \<or> fileExists flat_host demo_fs ''/network/a'' = Inr False)
       \<and> failed (unreachable (nextJobId (fetcher_o demo_fs))
                   (JStr (scheme_o demo_fs @ ''://'' @ extractRemotePath demo_fs ''/network/a'')))"
    by (simp add: demo_under_mount unreachable_def) (simp add: demo_fs_def)
  note t = failed_fetch_is_not_found
    [where nfs = new_NetworkFileSystem and parent = "Some root_node"
       and name = "''nowhere.invalid''" and w = unreachable and s = demo_fs
       and path = "''/network/a''" and fsPath = "''/network/a''" and h = flat_host
       and df = None and flags = "FlagString ''r''" and mode = None]
  have t1: "fst (lookup unreachable (Some root_node) ''nowhere.invalid'' new_NetworkFileSystem)
     = Inl (ErrnoError ENOENT ''No such file: nowhere.invalid'')"
    using conjunct1 [OF t] c1 by (simp add: rp)
  have e: "ERRNO_ENOENT flat_host = 44" by (simp add: flat_host_def)
  have t2: "\<exists>msg. fst (ensureFileSync flat_host unreachable ''/network/a'' demo_fs)
               = Inl (ErrnoError 44 msg)
           \<and> fst (patchedStat flat_host unreachable (PathString ''/network/a'') None demo_fs)
               = Inl (ErrnoError 44 msg)
           \<and> fst (patchedOpen flat_host unreachable (PathString ''/network/a'')
                     (FlagString ''r'') None demo_fs)
               = Inl (ErrnoError 44 msg)"
    using conjunct2 [OF t] c2 by (simp add: e)
  show ?thesis using t1 t2 by blast
qed

section \<open>Paths outside the mount in the call-interception adapter\<close>

lemma ensureFileSync_posts:
  assumes "normalizeToMount s path = Some fsPath"
    and "isWithinMount s fsPath" and "extractRemotePath s fsPath \<noteq> []"
    and "cache_o s fsPath = None"
  shows "fetcher_o (snd (ensureFileSync h w path s))
         = (fetcher_o s)\<lparr>nextJobId := nextJobId (fetcher_o s) + 1,
                 posted := posted (fetcher_o s)
                   @ [(nextJobId (fetcher_o s),
                       JStr (scheme_o s @ ''://'' @ extractRemotePath s fsPath))]\<rparr>"
proof -
  let ?url = "scheme_o s @ ''://'' @ extractRemotePath s fsPath"
  let ?f = "(fetcher_o s)\<lparr>nextJobId := nextJobId (fetcher_o s) + 1,
                 posted := posted (fetcher_o s) @ [(nextJobId (fetcher_o s), JStr ?url)]\<rparr>"
  obtain r where fr: "fetch w (JStr ?url) (fetcher_o s) = (r, ?f)"
    using fetch_state [of w "JStr ?url" "fetcher_o s"]
    by (cases "fetch w (JStr ?url) (fetcher_o s)") simp
  obtain fs where pd:
    "snd (ensureParentDirectories h fsPath (s\<lparr>fetcher_o := ?f\<rparr>))
     = s\<lparr>fetcher_o := ?f, hostFS := fs\<rparr>"
    using ensureParentDirectories_frame [of h fsPath "s\<lparr>fetcher_o := ?f\<rparr>"] by metis
  show ?thesis
    using assms fr pd
    by (auto simp: ensureFileSync_def pathToURL_o_remote Let_def
             split: sum.splits prod.splits)
qed

text \<open>
  For every string path that is not empty, does not start with the mount point and is
  more than slashes, the patched \<open>stat\<close> posts a request for the path re-rooted under the
  mount (unless that re-rooted path is cached already).
\<close>

lemma patchedStat_outside_mount_posts:
  assumes "path \<noteq> []" and "\<not> startsWith path (mountPoint_o s)"
    and "strip_slashes path \<noteq> []"
    and "cache_o s (the (normalizeToMount s path)) = None"
  shows "posted (fetcher_o (snd (patchedStat h w (PathString path) df s)))
         = posted (fetcher_o s)
           @ [(nextJobId (fetcher_o s), JStr (scheme_o s @ ''://'' @ strip_slashes path))]"
proof -
  define fsPath where
    "fsPath = (if startsWith path ''/'' then mountPoint_o s @ path
               else mountPoint_o s @ ''/'' @ path)"
  have n: "normalizeToMount s path = Some fsPath"
    using assms(1,2) by (simp add: normalizeToMount_def fsPath_def)
  have slash: "startsWith path ''/'' \<Longrightarrow> \<exists>r. path = ''/'' @ r"
    by (cases path) (simp_all add: startsWith_def)
  have w: "isWithinMount s fsPath"
    using slash by (auto simp: isWithinMount_def fsPath_def startsWith_def)
  have mp_not_root: "mountPoint_o s \<noteq> ''/'' \<or> \<not> startsWith path ''/''"
    using assms(2) by (auto simp: startsWith_def)
  have r: "extractRemotePath s fsPath = strip_slashes path"
  proof (cases "startsWith path ''/''")
    case True
    then obtain q where q: "path = ''/'' @ q" using slash by blast
    have "mountPoint_o s \<noteq> ''/''" using mp_not_root True by simp
    then show ?thesis
      using w by (simp add: extractRemotePath_def fsPath_def q startsWith_def
          strip_slashes_def Let_def)
  next
    case False
    then show ?thesis
      using w by (simp add: extractRemotePath_def fsPath_def startsWith_def
          strip_slashes_def Let_def)
  qed
  have r': "extractRemotePath s fsPath \<noteq> []" using r assms(3) by simp
  have c: "cache_o s fsPath = None" using assms(4) n by simp
  have "fetcher_o (snd (ensureFileSync h w fsPath s))
         = (fetcher_o s)\<lparr>nextJobId := nextJobId (fetcher_o s) + 1,
                 posted := posted (fetcher_o s)
                   @ [(nextJobId (fetcher_o s),
                       JStr (scheme_o s @ ''://'' @ extractRemotePath s fsPath))]\<rparr>"
    by (rule ensureFileSync_posts [OF normalizeToMount_idem [OF n] w r' c])
  then show ?thesis
    using materialize_if_string [where h = h and w = w, OF n]
    by (auto simp: patchedStat_def r split: prod.splits sum.splits)
qed

text \<open>
  C2. The claim: for every path that is not under the mount point, the patched open, stat
  and lstat behave exactly like the original entry points and trigger no fetch. The
  adapter first re-roots every string path that does not start with the mount point under
  the mount (\<open>normalizeToMount\<close>) and only then tests whether it is within the mount, so the
  test always succeeds: \<open>stat\<close> of \<^verbatim>\<open>/etc/hosts\<close>, a file of the host, with the mount at
  \<^verbatim>\<open>/network\<close>, posts a fetch of \<^verbatim>\<open>https://etc/hosts\<close> and, when that fetch fails,
  throws ENOENT, where the original \<open>stat\<close> returns the attributes of the file.
\<close>

theorem patched_stat_outside_mount_fetches:
  "patchedStat flat_host unreachable (PathString ''/etc/hosts'') None demo_fs
     = (Inl (ErrnoError 44 ''fetch failed''),
        demo_fs\<lparr>fetcher_o := \<lparr>nextJobId = 2, posted = [(1, JStr ''https://etc/hosts'')]\<rparr>\<rparr>)
   \<and> original_stat flat_host (PathString ''/etc/hosts'') None (hostFS demo_fs)
     = Inr \<lparr>st_size = 3, st_mtime = 0\<rparr>
   \<and> \<not> isWithinMount demo_fs ''/etc/hosts''"
  by (simp add: patchedStat_def materialize_if_def normalizeToMount_def startsWith_def
        ensureFileSync_def isWithinMount_def extractRemotePath_def strip_slashes_def
        pathToURL_o_def fetch_def unreachable_def demo_fs_def flat_host_def flat_stat_def
        Let_def)

section \<open>The restricted registry\<close>

lemma restricted_lookup_unknown:
  assumes "cache nfs (restricted_remotePath parent name) = None"
    and "KNOWN_RESOURCES name = None"
  shows "restricted_lookup w parent name nfs
         = (Inl (ErrnoError ENOENT (''No such file: '' @ restricted_remotePath parent name)), nfs)"
  using assms by (simp add: restricted_lookup_def ENOENT_def Let_def)

text \<open>
  A name that is neither the allow-listed one nor a property of \<^verbatim>\<open>Object.prototype\<close>
  is not found, and the adapter with its fetch bridge is left untouched.
\<close>

lemma restricted_lookup_plain_name:
  assumes "cache nfs (restricted_remotePath parent name) = None"
    and "name \<noteq> ''current-ip''" and "name \<notin> set object_prototype_functions"
    and "name \<noteq> ''__proto__''"
  shows "restricted_lookup w parent name nfs
         = (Inl (ErrnoError ENOENT (''No such file: '' @ restricted_remotePath parent name)), nfs)"
proof -
  have "KNOWN_RESOURCES name = None"
    using assms(2,3,4)
    by (simp add: KNOWN_RESOURCES_def KNOWN_RESOURCES_own_def object_prototype_get_def)
  then show ?thesis by (rule restricted_lookup_unknown [OF assms(1)])
qed

text \<open>
  The allow-listed name fetches exactly its locator: one request,
  \<^verbatim>\<open>https://icanhazip.com/\<close>, and the node is returned when the worker serves it.
\<close>

lemma restricted_lookup_current_ip:
  assumes "w 1 (JStr ''https://icanhazip.com/'') = PayloadOk data"
  shows "restricted_lookup w root_node ''current-ip'' new_NetworkFileSystem
         = (Inr (file_node ''current-ip'' ''/current-ip''),
            new_NetworkFileSystem
              \<lparr>cache := [''/current-ip'' \<mapsto> data],
               fetcher := \<lparr>nextJobId = 2, posted = [(1, JStr ''https://icanhazip.com/'')]\<rparr>\<rparr>)"
  using assms
  by (simp add: restricted_lookup_def restricted_remotePath_def root_node_def
        new_NetworkFileSystem_def KNOWN_RESOURCES_def KNOWN_RESOURCES_own_def
        fetch_def Let_def)

text \<open>
  C8. The claim: with the allow-list \<^verbatim>\<open>{"current-ip": "https://icanhazip.com/"}\<close>, the
  name \<^verbatim>\<open>current-ip\<close> is fetched from exactly that locator, and any other name fails
  with NotFound without any call to the fetch bridge. The allow-list is an object literal
  read with \<^verbatim>\<open>KNOWN_RESOURCES[name]\<close>, so a name that every object inherits, such as
  \<^verbatim>\<open>constructor\<close>, reads a function, which is truthy: the lookup passes it to
  \<^verbatim>\<open>fetch\<close>, which takes a job id and throws when the function cannot be posted to the
  worker. The lookup still fails with error 44 and nothing reaches the worker, but the
  bridge was called: its next job id went from 1 to 2. A name such as \<^verbatim>\<open>anything-else\<close>
  leaves the bridge untouched.
\<close>

theorem restricted_lookup_inherited_name_calls_bridge:
  "restricted_lookup w root_node ''constructor'' new_NetworkFileSystem
     = (Inl (ErrnoError ENOENT ''No such file: /constructor''),
        new_NetworkFileSystem\<lparr>fetcher := \<lparr>nextJobId = 2, posted = []\<rparr>\<rparr>)
   \<and> fetcher new_NetworkFileSystem = \<lparr>nextJobId = 1, posted = []\<rparr>
   \<and> restricted_lookup w root_node ''anything-else'' new_NetworkFileSystem
     = (Inl (ErrnoError ENOENT ''No such file: /anything-else''), new_NetworkFileSystem)"
  by (simp add: restricted_lookup_def restricted_remotePath_def root_node_def
        new_NetworkFileSystem_def KNOWN_RESOURCES_def KNOWN_RESOURCES_own_def
        object_prototype_get_def object_prototype_functions_def fetch_def ENOENT_def Let_def)

section \<open>From virtual path to locator\<close>

lemma pathToURL_o_under_mount:
  "pathToURL_o s (mountPoint_o s @ ''/'' @ r) =
     (if strip_slashes r = []
      then Inl (JsError (''No remote resource specified for '' @ mountPoint_o s @ ''/'' @ r))
      else Inr (scheme_o s @ ''://'' @ strip_slashes r))"
proof -
  have w: "isWithinMount s (mountPoint_o s @ ''/'' @ r)"
    by (simp add: isWithinMount_def startsWith_def)
  have "extractRemotePath s (mountPoint_o s @ ''/'' @ r) = strip_slashes r"
    using w by (simp add: extractRemotePath_def startsWith_def strip_slashes_def Let_def)
  then show ?thesis by (simp add: pathToURL_o_def Let_def)
qed

lemma strip_slashes_id:
  assumes "\<not> startsWith r ''/''"
  shows "strip_slashes r = r"
  using assms by (cases r) (simp_all add: startsWith_def strip_slashes_def)

text \<open>
  C4, as amended. The mapping is a pure function of the adapter's configuration and the
  path. In the call-interception adapter it strips the mount prefix once and then every
  leading slash of what remains: \<open>mountPoint/r\<close> maps to the scheme, \<open>://\<close> and
  \<open>r\<close> without its leading slashes (an error when nothing remains), which is
  \<open>scheme://r\<close> when \<open>r\<close> is not empty and does not start with a slash. Two paths
  under the mount with the same locator have remainders that are equal after their leading
  slashes are removed, and equal remainders when neither starts with a slash. In the
  virtual-node adapter \<open>pathToURL\<close> maps a remote path \<open>r\<close> to \<open>scheme://r\<close> and is
  injective.
\<close>

theorem pathToURL_injective_up_to_leading_slashes:
  "pathToURL_o s (mountPoint_o s @ ''/'' @ r) =
     (if strip_slashes r = []
      then Inl (JsError (''No remote resource specified for '' @ mountPoint_o s @ ''/'' @ r))
      else Inr (scheme_o s @ ''://'' @ strip_slashes r))
   \<and> (r \<noteq> [] \<and> \<not> startsWith r ''/'' \<longrightarrow>
        pathToURL_o s (mountPoint_o s @ ''/'' @ r) = Inr (scheme_o s @ ''://'' @ r))
   \<and> (pathToURL_o s (mountPoint_o s @ ''/'' @ p) = Inr u
       \<and> pathToURL_o s (mountPoint_o s @ ''/'' @ q) = Inr u \<longrightarrow>
        strip_slashes p = strip_slashes q)
   \<and> (\<not> startsWith p ''/'' \<and> \<not> startsWith q ''/''
       \<and> pathToURL_o s (mountPoint_o s @ ''/'' @ p) = Inr u
       \<and> pathToURL_o s (mountPoint_o s @ ''/'' @ q) = Inr u \<longrightarrow> p = q)
   \<and> pathToURL nfs a = scheme nfs @ ''://'' @ a
   \<and> (pathToURL nfs a = pathToURL nfs b \<longrightarrow> a = b)"
proof -
  have inj: "pathToURL_o s (mountPoint_o s @ ''/'' @ p) = Inr u
       \<and> pathToURL_o s (mountPoint_o s @ ''/'' @ q) = Inr u \<longrightarrow>
        strip_slashes p = strip_slashes q"
    unfolding pathToURL_o_under_mount by (auto split: if_splits)
  have inj': "\<not> startsWith p ''/'' \<and> \<not> startsWith q ''/''
       \<and> pathToURL_o s (mountPoint_o s @ ''/'' @ p) = Inr u
       \<and> pathToURL_o s (mountPoint_o s @ ''/'' @ q) = Inr u \<longrightarrow> p = q"
  proof (intro impI)
    assume a: "\<not> startsWith p ''/'' \<and> \<not> startsWith q ''/''
       \<and> pathToURL_o s (mountPoint_o s @ ''/'' @ p) = Inr u
       \<and> pathToURL_o s (mountPoint_o s @ ''/'' @ q) = Inr u"
    then have e: "strip_slashes p = strip_slashes q" using inj by blast
    have "p = strip_slashes p" using a by (simp add: strip_slashes_id)
    also have "\<dots> = strip_slashes q" by (rule e)
    also have "\<dots> = q" using a by (simp add: strip_slashes_id)
    finally show "p = q" .
  qed
  have exact: "r \<noteq> [] \<and> \<not> startsWith r ''/'' \<longrightarrow>
        pathToURL_o s (mountPoint_o s @ ''/'' @ r) = Inr (scheme_o s @ ''://'' @ r)"
    using strip_slashes_id [of r] unfolding pathToURL_o_under_mount by auto
  have node: "pathToURL nfs a = scheme nfs @ ''://'' @ a"
    and node_inj: "pathToURL nfs a = pathToURL nfs b \<longrightarrow> a = b"
    by (simp_all add: pathToURL_def)
  show ?thesis
    by (intro conjI pathToURL_o_under_mount exact inj inj' node node_inj)
qed

theorem pathToURL_injective_witness:
  "pathToURL_o demo_fs ''/network/icanhazip.com/get'' = Inr ''https://icanhazip.com/get''
   \<and> strip_slashes ''/a'' = strip_slashes ''a''
   \<and> pathToURL new_NetworkFileSystem ''icanhazip.com'' = ''https://icanhazip.com''"
proof -
  note t = pathToURL_injective_up_to_leading_slashes
    [where s = demo_fs and r = "''icanhazip.com/get''" and p = "''/a''" and q = "''a''"
       and u = "''https://a''" and nfs = new_NetworkFileSystem and a = "''icanhazip.com''"
       and b = "''icanhazip.com''"]
  have m: "mountPoint_o demo_fs = ''/network''" and sc: "scheme_o demo_fs = ''https''"
    by (simp_all add: demo_fs_def)
  have c1: "''icanhazip.com/get'' \<noteq> [] \<and> \<not> startsWith ''icanhazip.com/get'' ''/''"
    by (simp add: startsWith_def)
  have c2: "pathToURL_o demo_fs (mountPoint_o demo_fs @ ''/'' @ ''/a'') = Inr ''https://a''
       \<and> pathToURL_o demo_fs (mountPoint_o demo_fs @ ''/'' @ ''a'') = Inr ''https://a''"
    by (simp add: pathToURL_o_def extractRemotePath_def isWithinMount_def startsWith_def
          strip_slashes_def demo_fs_def Let_def)
  have t1: "pathToURL_o demo_fs ''/network/icanhazip.com/get'' = Inr ''https://icanhazip.com/get''"
    using conjunct1 [OF conjunct2 [OF t]] c1 by (simp add: m sc)
  have t2: "strip_slashes ''/a'' = strip_slashes ''a''"
    using conjunct1 [OF conjunct2 [OF conjunct2 [OF t]]] c2 by blast
  have t3: "pathToURL new_NetworkFileSystem ''icanhazip.com'' = ''https://icanhazip.com''"
    using conjunct1 [OF conjunct2 [OF conjunct2 [OF conjunct2 [OF conjunct2 [OF t]]]]]
    by (simp add: new_NetworkFileSystem_def)
  show ?thesis using t1 t2 t3 by blast
qed

text \<open>
  The claim as stated fails: the two paths \<^verbatim>\<open>/network//a\<close> and \<^verbatim>\<open>/network/a\<close> are
  under the mount \<^verbatim>\<open>/network\<close>, their remainders after the prefix \<^verbatim>\<open>/network/\<close> are
  \<^verbatim>\<open>/a\<close> and \<^verbatim>\<open>a\<close>, and both map to \<^verbatim>\<open>https://a\<close>; the first is not mapped to
  the scheme followed by its remainder.
\<close>

theorem pathToURL_not_injective_on_suffixes:
  "pathToURL_o demo_fs ''/network//a'' = Inr ''https://a''
   \<and> pathToURL_o demo_fs ''/network/a'' = Inr ''https://a''
   \<and> isWithinMount demo_fs ''/network//a'' \<and> isWithinMount demo_fs ''/network/a''
   \<and> drop (length ''/network/'') ''/network//a'' = ''/a''
   \<and> drop (length ''/network/'') ''/network/a'' = ''a''
   \<and> ''/a'' \<noteq> ''a''"
  by (simp add: pathToURL_o_def extractRemotePath_def isWithinMount_def startsWith_def
        strip_slashes_def demo_fs_def Let_def)

section \<open>Serializing a state\<close>

text \<open>
  C6. For every state \<open>s\<close>, deserializing what \<open>serialize\<close> returns gives \<open>s\<close> again
  in every field (messages, stepCount, outputCapture, networkCache, outputFiles, done,
  taskId and createdAt), with \<open>lastModified\<close> set to the clock reading of the
  serialization. Deserializing never fails, and a field that the record does not have gets
  its default while the other fields are kept: no messages, step 0, empty captured output,
  empty caches, not done, and metadata without a task id stamped with the current time.
\<close>

theorem deserialize_serialize_roundtrip:
  "deserialize now1 now2 (serialize now s) = s\<lparr>metadata := (metadata s)\<lparr>lastModified := now\<rparr>\<rparr>
   \<and> deserialize now1 now2 empty_record =
       \<lparr>messages = [], stepCount = 0, outputCapture = \<lparr>stdout = [], stderr = []\<rparr>,
        networkCache = Map.empty, outputFiles = Map.empty, done_flag = False,
        metadata = \<lparr>taskId = None, createdAt = now1, lastModified = now2\<rparr>\<rparr>
   \<and> deserialize now1 now2 (d\<lparr>r_messages := None\<rparr>)
       = (deserialize now1 now2 d)\<lparr>messages := []\<rparr>
   \<and> deserialize now1 now2 (d\<lparr>r_stepCount := None\<rparr>)
       = (deserialize now1 now2 d)\<lparr>stepCount := 0\<rparr>
   \<and> deserialize now1 now2 (d\<lparr>r_outputCapture := None\<rparr>)
       = (deserialize now1 now2 d)\<lparr>outputCapture := \<lparr>stdout = [], stderr = []\<rparr>\<rparr>
   \<and> deserialize now1 now2 (d\<lparr>r_networkCache := None\<rparr>)
       = (deserialize now1 now2 d)\<lparr>networkCache := Map.empty\<rparr>
   \<and> deserialize now1 now2 (d\<lparr>r_outputFiles := None\<rparr>)
       = (deserialize now1 now2 d)\<lparr>outputFiles := Map.empty\<rparr>
   \<and> deserialize now1 now2 (d\<lparr>r_done := None\<rparr>)
       = (deserialize now1 now2 d)\<lparr>done_flag := False\<rparr>
   \<and> deserialize now1 now2 (d\<lparr>r_metadata := None\<rparr>)
       = (deserialize now1 now2 d)
           \<lparr>metadata := \<lparr>taskId = None, createdAt = now1, lastModified = now2\<rparr>\<rparr>"
  by (simp add: deserialize_def serialize_def new_AgentState_def empty_record_def)

theorem deserialize_serialize_roundtrip_witness:
  "deserialize 7 8 (serialize 1001 (demo_state 1))
     = (demo_state 1)\<lparr>metadata := \<lparr>taskId = Some ''task-0'', createdAt = 0, lastModified = 1001\<rparr>\<rparr>
   \<and> stepCount (deserialize 7 8 ((serialize 1001 (demo_state 1))\<lparr>r_stepCount := None\<rparr>)) = 0"
proof -
  note t = deserialize_serialize_roundtrip
    [where ?now1.0 = 7 and ?now2.0 = 8 and now = 1001 and s = "demo_state 1"
       and d = "serialize 1001 (demo_state 1)"]
  have t1: "deserialize 7 8 (serialize 1001 (demo_state 1))
     = (demo_state 1)\<lparr>metadata := \<lparr>taskId = Some ''task-0'', createdAt = 0, lastModified = 1001\<rparr>\<rparr>"
    using conjunct1 [OF t] by (simp add: demo_state_def)
  have t2: "stepCount (deserialize 7 8 ((serialize 1001 (demo_state 1))\<lparr>r_stepCount := None\<rparr>)) = 0"
    using conjunct1 [OF conjunct2 [OF conjunct2 [OF conjunct2 [OF t]]]] by simp
  show ?thesis using t1 t2 by blast
qed

section \<open>Cloning a state\<close>

lemma deref_append:
  assumes "deref h r = Some ob"
  shows "deref (h @ ys) r = Some ob"
  using assms by (auto simp: deref_def nth_append split: if_splits)

lemma read_message_append:
  assumes "read_message h r = Some msg"
  shows "read_message (h @ ys) r = Some msg"
proof -
  from assms obtain ob where "deref h r = Some ob"
    by (cases "deref h r") (simp_all add: read_message_def)
  with assms deref_append [of h r ob ys] show ?thesis
    by (simp add: read_message_def)
qed

lemma those_map_Some:
  assumes "those (map f xs) = Some ys"
  shows "\<forall>x \<in> set xs. \<exists>y. f x = Some y"
  using assms
  by (induction xs arbitrary: ys) (auto split: option.splits)

lemma read_messages_append:
  assumes "those (map (read_message h) elems) = Some msgs"
  shows "those (map (read_message (h @ ys)) elems) = Some msgs"
proof -
  have eq: "map (read_message (h @ ys)) elems = map (read_message h) elems"
  proof (rule map_cong [OF refl])
    fix e assume "e \<in> set elems"
    then obtain msg where "read_message h e = Some msg"
      using those_map_Some [OF assms] by blast
    then show "read_message (h @ ys) e = read_message h e"
      using read_message_append by simp
  qed
  show ?thesis unfolding eq by (rule assms)
qed

lemma read_state_shape:
  assumes "read_state h this = Some s"
  obtains m c nc ofs md elems where
    "deref h this = Some (StateObj m (stepCount s) c nc ofs (done_flag s) md)"
    "deref h m = Some (ArrayObj elems)"
    "deref h c = Some (CaptureObj (outputCapture s))"
    "deref h nc = Some (DictObj (networkCache s))"
    "deref h ofs = Some (DictObj (outputFiles s))"
    "deref h md = Some (MetadataObj (metadata s))"
    "those (map (read_message h) elems) = Some (messages s)"
  using assms
  by (auto simp: read_state_def split: option.splits obj.splits)

lemma read_state_of_shape:
  assumes "deref h this = Some (StateObj m n c nc ofs d md)"
    "deref h m = Some (ArrayObj elems)"
    "deref h c = Some (CaptureObj cap)"
    "deref h nc = Some (DictObj ncd)"
    "deref h ofs = Some (DictObj ofd)"
    "deref h md = Some (MetadataObj mt)"
    "those (map (read_message h) elems) = Some msgs"
  shows "read_state h this = Some \<lparr>messages = msgs, stepCount = n, outputCapture = cap,
            networkCache = ncd, outputFiles = ofd, done_flag = d, metadata = mt\<rparr>"
  using assms by (simp add: read_state_def)

lemma read_state_append:
  assumes "read_state h this = Some s"
  shows "read_state (h @ ys) this = Some s"
proof -
  from assms obtain m c nc ofs md elems where sh:
    "deref h this = Some (StateObj m (stepCount s) c nc ofs (done_flag s) md)"
    "deref h m = Some (ArrayObj elems)"
    "deref h c = Some (CaptureObj (outputCapture s))"
    "deref h nc = Some (DictObj (networkCache s))"
    "deref h ofs = Some (DictObj (outputFiles s))"
    "deref h md = Some (MetadataObj (metadata s))"
    "those (map (read_message h) elems) = Some (messages s)"
    by (rule read_state_shape)
  show ?thesis
    using read_state_of_shape [OF deref_append [OF sh(1), of ys] deref_append [OF sh(2), of ys]
        deref_append [OF sh(3), of ys] deref_append [OF sh(4), of ys] deref_append [OF sh(5), of ys]
        deref_append [OF sh(6), of ys] read_messages_append [OF sh(7), of ys]]
    by simp
qed

lemma deref_nth: "deref h r = Some ob \<Longrightarrow> h ! r = ob"
  by (auto simp: deref_def split: if_splits)

lemma clone_of_state:
  assumes "read_state h this = Some s"
  shows "clone h this = Some (h @ cloned_objects h this, length h + 5)"
proof -
  from assms obtain m c nc ofs md elems where sh:
    "deref h this = Some (StateObj m (stepCount s) c nc ofs (done_flag s) md)"
    "deref h m = Some (ArrayObj elems)"
    "deref h c = Some (CaptureObj (outputCapture s))"
    "deref h nc = Some (DictObj (networkCache s))"
    "deref h ofs = Some (DictObj (outputFiles s))"
    "deref h md = Some (MetadataObj (metadata s))"
    "those (map (read_message h) elems) = Some (messages s)"
    by (rule read_state_shape)
  show ?thesis
    using sh(1-6) deref_nth [OF sh(2)] deref_nth [OF sh(3)] deref_nth [OF sh(4)]
      deref_nth [OF sh(5)] deref_nth [OF sh(6)]
    by (simp add: clone_def cloned_objects_def alloc_def)
qed

lemma read_state_clone:
  assumes "read_state h this = Some s"
  shows "read_state (h @ cloned_objects h this) (length h + 5) = Some s"
proof -
  from assms obtain m c nc ofs md elems where sh:
    "deref h this = Some (StateObj m (stepCount s) c nc ofs (done_flag s) md)"
    "deref h m = Some (ArrayObj elems)"
    "deref h c = Some (CaptureObj (outputCapture s))"
    "deref h nc = Some (DictObj (networkCache s))"
    "deref h ofs = Some (DictObj (outputFiles s))"
    "deref h md = Some (MetadataObj (metadata s))"
    "those (map (read_message h) elems) = Some (messages s)"
    by (rule read_state_shape)
  have co: "cloned_objects h this =
      [ArrayObj elems, CaptureObj (outputCapture s), DictObj (networkCache s),
       DictObj (outputFiles s), MetadataObj (metadata s),
       StateObj (length h) (stepCount s) (length h + 1) (length h + 2) (length h + 3)
         (done_flag s) (length h + 4)]"
    using sh(1) deref_nth [OF sh(2)] deref_nth [OF sh(3)] deref_nth [OF sh(4)]
      deref_nth [OF sh(5)] deref_nth [OF sh(6)]
    by (simp add: cloned_objects_def)
  let ?new = "[ArrayObj elems, CaptureObj (outputCapture s), DictObj (networkCache s),
       DictObj (outputFiles s), MetadataObj (metadata s),
       StateObj (length h) (stepCount s) (length h + 1) (length h + 2) (length h + 3)
         (done_flag s) (length h + 4)]"
  have d5: "deref (h @ ?new) (length h + 5)
            = Some (StateObj (length h) (stepCount s) (length h + 1) (length h + 2) (length h + 3)
                     (done_flag s) (length h + 4))"
    by (simp add: deref_def nth_append)
  have d0: "deref (h @ ?new) (length h) = Some (ArrayObj elems)"
    by (simp add: deref_def nth_append)
  have d1: "deref (h @ ?new) (length h + 1) = Some (CaptureObj (outputCapture s))"
    by (simp add: deref_def nth_append)
  have d2: "deref (h @ ?new) (length h + 2) = Some (DictObj (networkCache s))"
    by (simp add: deref_def nth_append)
  have d3: "deref (h @ ?new) (length h + 3) = Some (DictObj (outputFiles s))"
    by (simp add: deref_def nth_append)
  have d4: "deref (h @ ?new) (length h + 4) = Some (MetadataObj (metadata s))"
    by (simp add: deref_def nth_append)
  have "read_state (h @ ?new) (length h + 5)
        = Some \<lparr>messages = messages s, stepCount = stepCount s, outputCapture = outputCapture s,
            networkCache = networkCache s, outputFiles = outputFiles s,
            done_flag = done_flag s, metadata = metadata s\<rparr>"
    by (rule read_state_of_shape [OF d5 d0 d1 d2 d3 d4 read_messages_append [OF sh(7)]])
  then show ?thesis unfolding co by simp
qed

lemma own_containers_clone:
  assumes "read_state h this = Some s"
  shows "own_containers (h @ cloned_objects h this) (length h + 5)
         = [length h + 5, length h, length h + 1, length h + 2, length h + 3, length h + 4]"
proof -
  from assms obtain m c nc ofs md where "deref h this = Some (StateObj m (stepCount s) c nc ofs (done_flag s) md)"
    by (rule read_state_shape)
  then show ?thesis
    by (simp add: own_containers_def cloned_objects_def deref_def nth_append Suc_diff_le)
qed

lemma message_objects_clone:
  assumes "read_state h this = Some s"
  shows "message_objects (h @ cloned_objects h this) (length h + 5)
         = message_objects (h @ cloned_objects h this) this"
proof -
  from assms obtain m c nc ofs md elems where sh:
    "deref h this = Some (StateObj m (stepCount s) c nc ofs (done_flag s) md)"
    "deref h m = Some (ArrayObj elems)"
    by (rule read_state_shape)
  have "message_objects (h @ cloned_objects h this) this = elems"
    using deref_append [OF sh(1)] deref_append [OF sh(2)] by (simp add: message_objects_def)
  moreover have "message_objects (h @ cloned_objects h this) (length h + 5) = elems"
    using sh(1) deref_nth [OF sh(2)]
    by (simp add: message_objects_def cloned_objects_def deref_def nth_append Suc_diff_le)
  ultimately show ?thesis by simp
qed

lemma update_new_object:
  assumes "read_state h this = Some s" and "length h \<le> x"
  shows "read_state ((h @ ys)[x := ob]) this = Some s"
proof -
  have "(h @ ys)[x := ob] = h @ ys[x - length h := ob]"
    using assms(2) by (simp add: list_update_append)
  then show ?thesis using read_state_append [OF assms(1)] by simp
qed

text \<open>
  C7, as amended. \<open>clone\<close> of a well-formed state gives a state object of the same value
  and leaves the original as it was. The new state object and its five containers (the
  messages array and the outputCapture, networkCache, outputFiles and metadata objects) are
  new objects: whatever is written to any of them afterwards, the original state reads as
  before. The message objects are not copied: the messages array of the clone holds the
  same message objects as the array of the original.
\<close>

theorem clone_copies_containers:
  assumes "read_state h this = Some s"
  shows "\<exists>h' this'. clone h this = Some (h', this')
           \<and> read_state h' this' = Some s
           \<and> read_state h' this = Some s
           \<and> (\<forall>x \<in> set (own_containers h' this'). \<forall>ob. read_state (h'[x := ob]) this = Some s)
           \<and> message_objects h' this' = message_objects h' this"
proof -
  let ?h' = "h @ cloned_objects h this"
  have "\<forall>x \<in> set (own_containers ?h' (length h + 5)). \<forall>ob. read_state (?h'[x := ob]) this = Some s"
    unfolding own_containers_clone [OF assms]
    using update_new_object [OF assms] by simp
  then show ?thesis
    using clone_of_state [OF assms] read_state_clone [OF assms] read_state_append [OF assms]
      message_objects_clone [OF assms]
    by blast
qed


theorem clone_copies_containers_witness:
  "read_state demo_heap 6 = Some (demo_state 0)
   \<and> (\<exists>h' this'. clone demo_heap 6 = Some (h', this')
           \<and> read_state h' this' = Some (demo_state 0)
           \<and> read_state h' 6 = Some (demo_state 0)
           \<and> message_objects h' this' = message_objects h' 6)"
proof -
  have r: "read_state demo_heap 6 = Some (demo_state 0)"
    by (simp add: read_state_def read_message_def deref_def demo_heap_def demo_state_def)
  show ?thesis using clone_copies_containers [OF r] r by blast
qed

text \<open>
  The claim as stated fails for the elements of \<open>messages\<close>: the message object at
  reference 0 is reachable from the clone of the state at reference 6, and after it is
  overwritten the original state has another first message.
\<close>

theorem clone_shares_message_objects:
  "clone demo_heap 6 = Some (demo_heap @ cloned_objects demo_heap 6, 12)
   \<and> reachable (demo_heap @ cloned_objects demo_heap 6) 12 = [12, 7, 8, 9, 10, 11, 0]
   \<and> read_state demo_heap 6 = Some (demo_state 0)
   \<and> read_state ((demo_heap @ cloned_objects demo_heap 6)
                   [0 := MessageObj \<lparr>role = ''user'', content = Text ''changed''\<rparr>]) 6
     = Some ((demo_state 0)\<lparr>messages := [\<lparr>role = ''user'', content = Text ''changed''\<rparr>]\<rparr>)
   \<and> (demo_state 0)\<lparr>messages := [\<lparr>role = ''user'', content = Text ''changed''\<rparr>]\<rparr>
     \<noteq> demo_state 0"
  by (simp add: clone_def alloc_def cloned_objects_def reachable_def own_containers_def
        message_objects_def read_state_def read_message_def deref_def demo_heap_def
        demo_state_def demo_message_def)

section \<open>The durable step loop\<close>

















lemma snapshots_upto_fresh:
  assumes "\<forall>j. store (task, j) = None"
  shows "snapshots_upto e task store 0"
  using assms by (simp add: snapshots_upto_def)











text \<open>
  The runs of the witness. Steps 1 and 2 are loaded in each. With the first collaborator
  step 3 is a tool call and step 4 the final answer; with the failing one step 3 is a tool
  call and the request of step 4 throws.
\<close>

lemma resumed_run_example:
  "api_log (snd (agenticLoop 10 demo_env ''task-0'' (demo_state 0) demo_options () demo_store))
   = [3, 4]
   \<and> fst (agenticLoop 10 demo_env ''task-0'' (demo_state 0) demo_options () demo_store)
     = Returned"
  by (simp add: agenticLoop_def initial_world_def numeral_nat loop_body_def loadState_def
        demo_store_def demo_options_def demo_state_def demo_env_def deserialize_def
        new_AgentState_def serialize_def runAgenticStep_def push_message_def Let_def
        executePythonCode_def emit_def set_state_capture_def saveState_def
        captureOutputFiles_def captureNetworkCache_def restoreNetworkCache_def
        restoreOutputFiles_def new_NetworkFileSystem_def)


lemma decimal_1:
  "decimal (Suc 0) = ''1''"
  by code_simp

text \<open>
  A task id with a slash, on a host where the cache directory has no subdirectory: the
  first step is run, the write of its snapshot throws, and nothing is saved.
\<close>

lemma unwritable_snapshot_example:
  "fst (agenticLoop 10 demo_env ''a/b'' (demo_state 0) demo_options () Map.empty)
   = Threw ''ENOENT: no such file or directory, open a/b-step-1.json''
   \<and> api_log (snd (agenticLoop 10 demo_env ''a/b'' (demo_state 0) demo_options () Map.empty))
     = [1]
   \<and> snapshots (snd (agenticLoop 10 demo_env ''a/b'' (demo_state 0) demo_options ()
                        Map.empty)) = Map.empty"
  by (simp add: agenticLoop_def initial_world_def numeral_nat loop_body_def loadState_def
        demo_options_def demo_state_def demo_env_def
        runAgenticStep_def push_message_def Let_def
        executePythonCode_def emit_def set_state_capture_def saveState_def
        cacheFileName_def decimal_1
        captureOutputFiles_def captureNetworkCache_def restoreNetworkCache_def
        restoreOutputFiles_def new_NetworkFileSystem_def)



end
